theory Spec2Isabelle
  imports Main
begin

text \<open>
  A model of the step execution core and of the task state machine of rover: the task
  description manager (\<^verbatim>\<open>TaskDescriptionManager\<close>: status transitions, restart, loading and
  saving, the status derived from the latest iteration), the status guard of the restart
  command, the credit exhaustion check of the command line, and the subprocess runner
  (\<^verbatim>\<open>Runner\<close>: the prompt with its placeholders, the parsing of the response, the result
  of a step). Strings are lists of 8-bit code units. What the code takes from the
  language and from packages that are not modelled (JSON, the schema check, the clock,
  paths, the agent adapters, the error classifier) is a parameter of the functions that
  use it, so every theorem holds whatever these do.
\<close>

section \<open>JavaScript values used by the task manager\<close>

text \<open>
  Optional string fields of the task document (\<^verbatim>\<open>startedAt?: string\<close> and the like) are
  \<open>string option\<close>, \<open>None\<close> standing for \<^verbatim>\<open>undefined\<close>. JavaScript's truthiness test
  on such a field (\<^verbatim>\<open>!this.data.completedAt\<close>, \<^verbatim>\<open>metadata?.timestamp || ...\<close>) is false for
  \<^verbatim>\<open>undefined\<close> and for the empty string.
\<close>

definition truthy :: "string option \<Rightarrow> bool" where
  "truthy v = (case v of None \<Rightarrow> False | Some s \<Rightarrow> s \<noteq> [])"

text \<open>\<^verbatim>\<open>a || b\<close> where \<open>a\<close> is an optional string and \<open>b\<close> a string.\<close>

definition or_else :: "string option \<Rightarrow> string \<Rightarrow> string" where
  "or_else a b = (case a of None \<Rightarrow> b | Some s \<Rightarrow> if s = [] then b else s)"

text \<open>
  \<^verbatim>\<open>parseInt(s, 10)\<close>: leading white space is skipped, a sign is read, then the longest
  run of decimal digits; \<open>None\<close> is \<^verbatim>\<open>NaN\<close>. Strings are lists of 8-bit code units, so
  the white space is TAB, LF, VT, FF, CR, space and NBSP.
\<close>

definition js_space :: "char \<Rightarrow> bool" where
  "js_space c = (of_char c \<in> {9, 10, 11, 12, 13, 32, 160 :: nat})"

definition is_digit :: "char \<Rightarrow> bool" where
  "is_digit c = (48 \<le> (of_char c :: nat) \<and> (of_char c :: nat) \<le> 57)"

definition digits_value :: "string \<Rightarrow> nat" where
  "digits_value ds = foldl (\<lambda>a c. 10 * a + (of_char c - 48)) 0 ds"

definition parseInt :: "string \<Rightarrow> int option" where
  "parseInt s =
     (let s1 = dropWhile js_space s;
          neg = (case s1 of c # r \<Rightarrow> c = CHR ''-'' | [] \<Rightarrow> False);
          s2 = (case s1 of c # r \<Rightarrow> if c = CHR ''-'' \<or> c = CHR ''+'' then r else s1 | [] \<Rightarrow> s1);
          ds = takeWhile is_digit s2
      in if ds = [] then None
         else Some (if neg then - int (digits_value ds) else int (digits_value ds)))"

text \<open>\<^verbatim>\<open>n.toString()\<close> of an integer (below the magnitude where JavaScript switches to
  exponent notation).\<close>

fun nat_toString :: "nat \<Rightarrow> string" where
  "nat_toString n =
     (if n < 10 then [char_of (48 + n)]
      else nat_toString (n div 10) @ [char_of (48 + n mod 10)])"

definition Number_toString :: "int \<Rightarrow> string" where
  "Number_toString i =
     (if i < 0 then CHR ''-'' # nat_toString (nat (- i)) else nat_toString (nat i))"

section \<open>The file system\<close>

text \<open>
  A path holds a regular file with its text, a directory with its entries (name and
  \<^verbatim>\<open>dirent.isDirectory()\<close>), or something that \<^verbatim>\<open>existsSync\<close> reports but
  \<^verbatim>\<open>readFileSync\<close> fails on (a file without read permission, say), which carries the
  message of the error raised.
\<close>

datatype fentry = File string | Directory "(string \<times> bool) list" | Unreadable string

type_synonym fs = "string \<rightharpoonup> fentry"

definition existsSync :: "fs \<Rightarrow> string \<Rightarrow> bool" where
  "existsSync fs p = (fs p \<noteq> None)"

definition readFileSync :: "fs \<Rightarrow> string \<Rightarrow> string + string" where
  "readFileSync fs p =
     (case fs p of
        None \<Rightarrow> Inl (''ENOENT: no such file or directory, open '' @ p)
      | Some (Unreadable msg) \<Rightarrow> Inl msg
      | Some (Directory es) \<Rightarrow> Inl ''EISDIR: illegal operation on a directory, read''
      | Some (File txt) \<Rightarrow> Inr txt)"

definition writeFileSync :: "fs \<Rightarrow> string \<Rightarrow> string \<Rightarrow> string + fs" where
  "writeFileSync fs p txt =
     (case fs p of
        Some (Unreadable msg) \<Rightarrow> Inl msg
      | Some (Directory es) \<Rightarrow> Inl ''EISDIR: illegal operation on a directory, open''
      | _ \<Rightarrow> Inr (fs(p \<mapsto> File txt)))"

definition readdirSync :: "fs \<Rightarrow> string \<Rightarrow> string + (string \<times> bool) list" where
  "readdirSync fs p =
     (case fs p of
        Some (Directory es) \<Rightarrow> Inr es
      | Some _ \<Rightarrow> Inl ''ENOTDIR: not a directory, scandir''
      | None \<Rightarrow> Inl ''ENOENT: no such file or directory, scandir'')"

text \<open>\<^verbatim>\<open>copyFileSync(src, dest)\<close>.\<close>

definition copyFileSync :: "fs \<Rightarrow> string \<Rightarrow> string \<Rightarrow> string + fs" where
  "copyFileSync fs src dest =
     (case readFileSync fs src of
        Inl msg \<Rightarrow> Inl msg
      | Inr txt \<Rightarrow> writeFileSync fs dest txt)"

text \<open>\<^verbatim>\<open>rmSync(p)\<close> of a regular file.\<close>

definition rmSync :: "fs \<Rightarrow> string \<Rightarrow> string + fs" where
  "rmSync fs p =
     (case fs p of
        Some (File txt) \<Rightarrow> Inr (fs(p := None))
      | Some (Directory es) \<Rightarrow> Inl ''EISDIR: path is a directory, rm''
      | Some (Unreadable msg) \<Rightarrow> Inl msg
      | None \<Rightarrow> Inl ''ENOENT: no such file or directory, rm'')"

section \<open>Task description (rover-schemas, task-description/schema.ts)\<close>

datatype TaskStatus =
  NEW | IN_PROGRESS | ITERATING | COMPLETED | FAILED | PAUSED_CREDITS | MERGED | PUSHED

text \<open>
  The fields of the task document that the status methods read or write. The record is
  extensible: every other field of the document (title, inputs, agent, sandbox metadata,
  unknown fields kept by the loader, ...) lives in the extension part, which no function
  below touches.
\<close>

record TaskDescription =
  id :: int
  status :: TaskStatus
  startedAt :: "string option"
  completedAt :: "string option"
  failedAt :: "string option"
  lastIterationAt :: "string option"
  lastStatusCheck :: "string option"
  iterations :: int
  error :: "string option"
  restartCount :: "int option"
  lastRestartAt :: "string option"
  version :: string

record StatusMetadata =
  timestamp :: "string option"
  md_error :: "string option"

datatype task_error =
  TaskNotFoundError int
| TaskSchemaError
| TaskFileError
| TaskValidationError
| Error string

text \<open>
  The status document of an iteration (\<^verbatim>\<open>status.json\<close>), as far as the task manager reads
  it, and the iteration manager, whose \<^verbatim>\<open>status()\<close> returns that document or throws
  (\<open>None\<close>).
\<close>

record IterationStatus =
  iter_status :: string
  iter_updatedAt :: string
  iter_completedAt :: "string option"
  iter_error :: "string option"

datatype IterationManager = IterationManager (iteration_status: "IterationStatus option")

text \<open>
  What the manager takes from outside the repository: the Zod schema check
  (\<^verbatim>\<open>TaskDescriptionSchema.safeParse(data).success\<close>), \<^verbatim>\<open>JSON.stringify(data, null, 2)\<close>,
  \<^verbatim>\<open>JSON.parse\<close> (\<open>None\<close> for a \<^verbatim>\<open>SyntaxError\<close>), the \<^verbatim>\<open>version\<close> property of a
  parsed document (\<open>None\<close> when it is absent or not a string) and \<^verbatim>\<open>path.join\<close>.
  \<open>migrate_fields\<close> is the field-by-field rewrite that \<^verbatim>\<open>migrate\<close> applies to a
  document of another schema version (it draws a fresh UUID and the clock; \<open>None\<close> when
  it throws, as on the parsed value \<^verbatim>\<open>null\<close>). \<open>IterationManager_load\<close> is
  \<^verbatim>\<open>IterationManager.load(path)\<close>, \<open>None\<close> when it throws.
  The document type \<open>'d\<close> is the same for a parsed and for a validated document, as it
  is the same object at run time (\<^verbatim>\<open>data as TaskDescription\<close>).
\<close>

record 'd runtime =
  safeParse :: "'d \<Rightarrow> bool"
  JSON_stringify :: "'d \<Rightarrow> string"
  JSON_parse :: "string \<Rightarrow> 'd option"
  version_of :: "'d \<Rightarrow> string option"
  migrate_fields :: "'d \<Rightarrow> int \<Rightarrow> 'd option"
  path_join :: "string \<Rightarrow> string \<Rightarrow> string"
  IterationManager_load :: "fs \<Rightarrow> string \<Rightarrow> IterationManager option"


record 'd TaskDescriptionManager =
  data :: 'd
  taskId :: int
  basePath :: string
  filePath :: string

section \<open>TaskDescriptionManager: validation and persistence\<close>

text \<open>\<^verbatim>\<open>validate()\<close> throws \<^verbatim>\<open>TaskValidationError\<close> when the schema rejects the data.\<close>

definition validate :: "'d runtime \<Rightarrow> 'd TaskDescriptionManager \<Rightarrow> task_error option" where
  "validate rt m = (if safeParse rt (data m) then None else Some TaskValidationError)"

text \<open>
  \<^verbatim>\<open>save()\<close>: validate, serialise, write; any exception is rethrown as
  \<^verbatim>\<open>TaskFileError\<close>. The result is the error or the new file system.
\<close>

definition save :: "'d runtime \<Rightarrow> 'd TaskDescriptionManager \<Rightarrow> fs \<Rightarrow> task_error + fs" where
  "save rt m fs =
     (case validate rt m of
        Some e \<Rightarrow> Inl TaskFileError
      | None \<Rightarrow>
          (case writeFileSync fs (filePath m) (JSON_stringify rt (data m)) of
             Inl msg \<Rightarrow> Inl TaskFileError
           | Inr fs' \<Rightarrow> Inr fs'))"

text \<open>
  A method that mutates the manager and then saves returns the thrown error (if any), the
  manager and the file system. The in-memory data keeps the mutation even when the save
  throws.
\<close>

definition save_after ::
  "'d runtime \<Rightarrow> 'd TaskDescriptionManager \<Rightarrow> fs \<Rightarrow>
     task_error option \<times> 'd TaskDescriptionManager \<times> fs" where
  "save_after rt m fs =
     (case save rt m fs of Inl e \<Rightarrow> (Some e, m, fs) | Inr fs' \<Rightarrow> (None, m, fs'))"

section \<open>TaskDescriptionManager: status management\<close>

text \<open>
  \<^verbatim>\<open>setStatus(status, metadata?)\<close>. \<open>now\<close> is the reading of
  \<^verbatim>\<open>new Date().toISOString()\<close>, taken only when the metadata carries no usable timestamp.
\<close>

definition setStatus_data ::
  "TaskStatus \<Rightarrow> StatusMetadata option \<Rightarrow> string \<Rightarrow>
     'a TaskDescription_scheme \<Rightarrow> 'a TaskDescription_scheme" where
  "setStatus_data st metadata now d0 =
     (let d = d0\<lparr>status := st\<rparr>;
          ts = or_else (case metadata of None \<Rightarrow> None | Some md \<Rightarrow> timestamp md) now;
          err = (case metadata of None \<Rightarrow> None | Some md \<Rightarrow> md_error md);
          d' = (case st of
                  IN_PROGRESS \<Rightarrow> if \<not> truthy (startedAt d) then d\<lparr>startedAt := Some ts\<rparr> else d
                | ITERATING \<Rightarrow> d\<lparr>lastIterationAt := Some ts\<rparr>
                | COMPLETED \<Rightarrow> d\<lparr>completedAt := Some ts\<rparr>
                | FAILED \<Rightarrow>
                    (let d1 = d\<lparr>failedAt := Some ts\<rparr>
                     in if truthy err then d1\<lparr>error := err\<rparr> else d1)
                | PAUSED_CREDITS \<Rightarrow>
                    (let d1 = d\<lparr>failedAt := Some ts\<rparr>
                     in if truthy err then d1\<lparr>error := err\<rparr> else d1)
                | MERGED \<Rightarrow> if \<not> truthy (completedAt d) then d\<lparr>completedAt := Some ts\<rparr> else d
                | PUSHED \<Rightarrow> if \<not> truthy (completedAt d) then d\<lparr>completedAt := Some ts\<rparr> else d
                | NEW \<Rightarrow> d)
      in d'\<lparr>lastStatusCheck := Some ts\<rparr>)"

definition setStatus ::
  "'a TaskDescription_scheme runtime \<Rightarrow> TaskStatus \<Rightarrow> StatusMetadata option \<Rightarrow> string \<Rightarrow>
     'a TaskDescription_scheme TaskDescriptionManager \<Rightarrow> fs \<Rightarrow>
     task_error option \<times> 'a TaskDescription_scheme TaskDescriptionManager \<times> fs" where
  "setStatus rt st metadata now m fs =
     save_after rt (m\<lparr>data := setStatus_data st metadata now (data m)\<rparr>) fs"

text \<open>\<^verbatim>\<open>markMerged(timestamp?)\<close> and \<^verbatim>\<open>markPushed(timestamp?)\<close>.\<close>

definition markMerged where
  "markMerged rt ts now m fs = setStatus rt MERGED (Some \<lparr>timestamp = ts, md_error = None\<rparr>) now m fs"

definition markPushed where
  "markPushed rt ts now m fs = setStatus rt PUSHED (Some \<lparr>timestamp = ts, md_error = None\<rparr>) now m fs"

text \<open>
  \<^verbatim>\<open>restart(timestamp?)\<close>. \<open>now\<close> is the clock reading taken by \<^verbatim>\<open>restart\<close>, \<open>now'\<close>
  the one \<^verbatim>\<open>setStatus\<close> would take.
\<close>

definition restart ::
  "'a TaskDescription_scheme runtime \<Rightarrow> string option \<Rightarrow> string \<Rightarrow> string \<Rightarrow>
     'a TaskDescription_scheme TaskDescriptionManager \<Rightarrow> fs \<Rightarrow>
     task_error option \<times> 'a TaskDescription_scheme TaskDescriptionManager \<times> fs" where
  "restart rt ts now now' m fs =
     (let restartTimestamp = or_else ts now;
          d = data m;
          d1 = d\<lparr>restartCount :=
                  Some ((case restartCount d of None \<Rightarrow> 0 | Some c \<Rightarrow> c) + 1)\<rparr>;
          d2 = d1\<lparr>lastRestartAt := Some restartTimestamp\<rparr>
      in setStatus rt IN_PROGRESS
           (Some \<lparr>timestamp = Some restartTimestamp, md_error = None\<rparr>) now' (m\<lparr>data := d2\<rparr>) fs)"

section \<open>TaskDescriptionManager: construction and loading\<close>






section \<open>TaskDescriptionManager: iterations\<close>

definition iterationsPath :: "'d runtime \<Rightarrow> 'd TaskDescriptionManager \<Rightarrow> string" where
  "iterationsPath rt m = path_join rt (basePath m) ''iterations''"

text \<open>
  \<^verbatim>\<open>getLastIteration()\<close>: the sub-directories of the iterations directory whose names
  \<^verbatim>\<open>parseInt\<close> reads as a number, sorted in descending order; the first one is loaded.
\<close>

definition iterationsIds :: "(string \<times> bool) list \<Rightarrow> int list" where
  "iterationsIds dirents =
     rev (sort (map the (filter (\<lambda>n. n \<noteq> None) (map (\<lambda>d. parseInt (fst d)) (filter snd dirents)))))"

definition getLastIteration ::
  "'d runtime \<Rightarrow> 'd TaskDescriptionManager \<Rightarrow> fs \<Rightarrow> task_error + IterationManager option" where
  "getLastIteration rt m fs =
     (if existsSync fs (iterationsPath rt m) then
        (case readdirSync fs (iterationsPath rt m) of
           Inl msg \<Rightarrow> Inl (Error ''There was an error retrieving the task iterations'')
         | Inr dirents \<Rightarrow>
             (case iterationsIds dirents of
                [] \<Rightarrow> Inr None
              | i # rest \<Rightarrow>
                  (case IterationManager_load rt fs
                          (path_join rt (iterationsPath rt m) (Number_toString i)) of
                     None \<Rightarrow> Inl (Error ''There was an error retrieving the task iterations'')
                   | Some it \<Rightarrow> Inr (Some it))))
      else Inr None)"

text \<open>
  The \<^verbatim>\<open>switch\<close> of \<^verbatim>\<open>updateStatusFromIteration\<close>: the task status, the timestamp and the
  error derived from the status document of the iteration.
\<close>

definition derive_status :: "IterationStatus \<Rightarrow> TaskStatus \<times> string option \<times> string option" where
  "derive_status st =
     (if iter_status st = ''completed'' then (COMPLETED, iter_completedAt st, None)
      else if iter_status st = ''failed'' then (FAILED, iter_completedAt st, iter_error st)
      else if iter_status st = ''credit_exhausted''
        then (PAUSED_CREDITS, iter_completedAt st, iter_error st)
      else if iter_status st = ''running'' then (ITERATING, Some (iter_updatedAt st), None)
      else (IN_PROGRESS, Some (iter_updatedAt st), None))"

definition updateStatusFromIteration ::
  "'a TaskDescription_scheme runtime \<Rightarrow> string \<Rightarrow>
     'a TaskDescription_scheme TaskDescriptionManager \<Rightarrow> fs \<Rightarrow>
     task_error option \<times> 'a TaskDescription_scheme TaskDescriptionManager \<times> fs" where
  "updateStatusFromIteration rt now m fs =
     (case getLastIteration rt m fs of
        Inl e \<Rightarrow> (Some e, m, fs)
      | Inr None \<Rightarrow> (None, m, fs)
      | Inr (Some it) \<Rightarrow>
          (case iteration_status it of
             None \<Rightarrow> (Some (Error ''status''), m, fs)
           | Some st \<Rightarrow>
               (case derive_status st of
                  (statusName, ts, err) \<Rightarrow>
                    if statusName = COMPLETED \<and> status (data m) \<in> set [MERGED, PUSHED]
                    then (None, m, fs)
                    else setStatus rt statusName
                           (Some \<lparr>timestamp = ts, md_error = err\<rparr>) now m fs)))"

section \<open>The restart command (cli, commands/restart.ts)\<close>

definition isNew :: "'a TaskDescription_scheme TaskDescriptionManager \<Rightarrow> bool" where
  "isNew m = (status (data m) = NEW)"

definition isFailed :: "'a TaskDescription_scheme TaskDescriptionManager \<Rightarrow> bool" where
  "isFailed m = (status (data m) = FAILED)"

definition isPausedCredits :: "'a TaskDescription_scheme TaskDescriptionManager \<Rightarrow> bool" where
  "isPausedCredits m = (status (data m) = PAUSED_CREDITS)"

text \<open>
  The ways \<^verbatim>\<open>restartCommand\<close> ends in \<^verbatim>\<open>exitWithError\<close> before or at the restart of the
  task: the id is not a number, there is no project context, the task is not found, the
  task is not in a restartable status, or \<^verbatim>\<open>task.restart\<close> threw.
\<close>

datatype restart_exit =
  InvalidTaskId string
| NoProjectContext string
| TaskNotFound int
| NotRestartable TaskStatus
| RestartFailed task_error

text \<open>
  \<^verbatim>\<open>restartCommand\<close> up to and including \<^verbatim>\<open>task.restart(restartedAt)\<close>. \<open>project\<close> is the
  result of \<^verbatim>\<open>requireProjectContext()\<close>: its error message, or \<^verbatim>\<open>project.getTask\<close>;
  \<open>now\<close> is the clock reading \<^verbatim>\<open>restartedAt\<close>, \<open>now'\<close> any later reading.
  The steps after the restart (work tree, iteration directory, sandbox) are not part of
  this model.
\<close>

definition restartCommand ::
  "'a TaskDescription_scheme runtime \<Rightarrow> string \<Rightarrow>
     (string + (int \<Rightarrow> 'a TaskDescription_scheme TaskDescriptionManager option)) \<Rightarrow>
     string \<Rightarrow> string \<Rightarrow> fs \<Rightarrow>
     restart_exit + ('a TaskDescription_scheme TaskDescriptionManager \<times> fs)" where
  "restartCommand rt taskId_arg project now now' fs =
     (case parseInt taskId_arg of
        None \<Rightarrow> Inl (InvalidTaskId taskId_arg)
      | Some numericTaskId \<Rightarrow>
          (case project of
             Inl msg \<Rightarrow> Inl (NoProjectContext msg)
           | Inr getTask \<Rightarrow>
               (case getTask numericTaskId of
                  None \<Rightarrow> Inl (TaskNotFound numericTaskId)
                | Some task \<Rightarrow>
                    if \<not> isNew task \<and> \<not> isFailed task \<and> \<not> isPausedCredits task
                    then Inl (NotRestartable (status (data task)))
                    else
                      (case restart rt (Some now) now' now' task fs of
                         (Some e, task', fs') \<Rightarrow> Inl (RestartFailed e)
                       | (None, task', fs') \<Rightarrow> Inr (task', fs')))))"

section \<open>Credit exhaustion check (cli, lib/agents/index.ts)\<close>













section \<open>JavaScript strings\<close>

text \<open>\<^verbatim>\<open>s.trim()\<close> and \<^verbatim>\<open>s.split(sep)\<close> for a separator of one character.\<close>

definition trim :: "string \<Rightarrow> string" where
  "trim s = rev (dropWhile js_space (rev (dropWhile js_space s)))"

fun split_on :: "char \<Rightarrow> string \<Rightarrow> string list" where
  "split_on sep [] = [[]]"
| "split_on sep (c # cs) =
     (if c = sep then [] # split_on sep cs
      else (case split_on sep cs of p # ps \<Rightarrow> (c # p) # ps | [] \<Rightarrow> [[c]]))"

text \<open>
  \<^verbatim>\<open>s.replace(searchValue, replaceValue)\<close> with two strings: the first occurrence of
  \<^verbatim>\<open>searchValue\<close> is replaced by the expansion of \<^verbatim>\<open>replaceValue\<close>, in which
  \<^verbatim>\<open>$$\<close> stands for a dollar sign, \<^verbatim>\<open>$&\<close> for the matched text, \<^verbatim>\<open>$`\<close> for the text before
  the match and \<^verbatim>\<open>$'\<close> for the text after it (ECMAScript, GetSubstitution; there are no
  capture groups, so \<^verbatim>\<open>$1\<close> and \<^verbatim>\<open>$<\<close> stay as they are).
\<close>

definition starts_with :: "string \<Rightarrow> string \<Rightarrow> bool" where
  "starts_with pat s = (take (length pat) s = pat)"

fun find_first :: "string \<Rightarrow> string \<Rightarrow> (string \<times> string) option" where
  "find_first pat [] = (if pat = [] then Some ([], []) else None)"
| "find_first pat (c # cs) =
     (if starts_with pat (c # cs) then Some ([], drop (length pat) (c # cs))
      else map_option (\<lambda>(pre, post). (c # pre, post)) (find_first pat cs))"

fun GetSubstitution :: "string \<Rightarrow> string \<Rightarrow> string \<Rightarrow> string \<Rightarrow> string" where
  "GetSubstitution matched preceding following [] = []"
| "GetSubstitution matched preceding following [c] = [c]"
| "GetSubstitution matched preceding following (c # d # r) =
     (if c = CHR ''$'' \<and> d = CHR ''$'' then CHR ''$'' # GetSubstitution matched preceding following r
      else if c = CHR ''$'' \<and> d = CHR 0x60 then preceding @ GetSubstitution matched preceding following r
      else if c = CHR ''$'' \<and> d = CHR ''&'' then matched @ GetSubstitution matched preceding following r
      else if c = CHR ''$'' \<and> d = CHR 0x27 then following @ GetSubstitution matched preceding following r
      else c # GetSubstitution matched preceding following (d # r))"

definition String_replace :: "string \<Rightarrow> string \<Rightarrow> string \<Rightarrow> string" where
  "String_replace s searchValue replaceValue =
     (case find_first searchValue s of
        None \<Rightarrow> s
      | Some (preceding, following) \<Rightarrow>
          preceding @ GetSubstitution searchValue preceding following replaceValue @ following)"

text \<open>
  \<^verbatim>\<open>[...s.matchAll(/\{\{([^}]+)\}\}/g)]\<close>: the matches from left to right, each with the
  matched text and the first group.
\<close>

definition placeholder_at :: "string \<Rightarrow> (string \<times> string) option" where
  "placeholder_at s =
     (if starts_with ''{{'' s then
        (let body = takeWhile (\<lambda>c. c \<noteq> CHR ''}'') (drop 2 s);
             rest = dropWhile (\<lambda>c. c \<noteq> CHR ''}'') (drop 2 s)
         in if body \<noteq> [] \<and> starts_with ''}}'' rest then Some (''{{'' @ body @ ''}}'', body)
            else None)
      else None)"

fun matchAll_from :: "nat \<Rightarrow> string \<Rightarrow> (string \<times> string) list" where
  "matchAll_from skip [] = []"
| "matchAll_from skip (c # cs) =
     (if 0 < skip then matchAll_from (skip - 1) cs
      else (case placeholder_at (c # cs) of
              Some (fullMatch, body) \<Rightarrow>
                (fullMatch, body) # matchAll_from (length fullMatch - 1) cs
            | None \<Rightarrow> matchAll_from 0 cs))"

definition matchAll :: "string \<Rightarrow> (string \<times> string) list" where
  "matchAll s = matchAll_from 0 s"

text \<open>\<^verbatim>\<open>s.toLowerCase()\<close> on 8-bit code units.\<close>

definition toLowerCase :: "string \<Rightarrow> string" where
  "toLowerCase s =
     map (\<lambda>c. let n = (of_char c :: nat)
              in if (65 \<le> n \<and> n \<le> 90) \<or> (192 \<le> n \<and> n \<le> 222 \<and> n \<noteq> 215)
                 then char_of (n + 32) else c) s"

section \<open>Workflow steps and output maps\<close>

datatype WorkflowOutputType = string_type | file_type

record WorkflowOutput =
  out_name :: string
  description :: string
  out_type :: WorkflowOutputType
  filename :: "string option"

record WorkflowAgentStep =
  step_id :: string
  step_name :: string
  step_prompt :: string
  step_outputs :: "WorkflowOutput list option"

text \<open>
  A \<^verbatim>\<open>Map<string, string>\<close> keeps its keys in insertion order: \<^verbatim>\<open>set\<close> replaces the value
  of a key that is present and appends a new key.
\<close>

type_synonym outputs = "(string \<times> string) list"

fun Map_set :: "string \<Rightarrow> string \<Rightarrow> outputs \<Rightarrow> outputs" where
  "Map_set k v [] = [(k, v)]"
| "Map_set k v ((k', v') # kvs) =
     (if k' = k then (k, v) # kvs else (k', v') # Map_set k v kvs)"

definition Map_get :: "outputs \<Rightarrow> string \<Rightarrow> string option" where
  "Map_get m k = map_of m k"

definition Map_has :: "outputs \<Rightarrow> string \<Rightarrow> bool" where
  "Map_has m k = (map_of m k \<noteq> None)"

section \<open>Runner: building the prompt (agent, lib/runner.ts)\<close>

text \<open>
  What \<^verbatim>\<open>prompt()\<close> reads: the step, the tool, the user inputs, the outputs of the steps
  run so far, the steps of the workflow and the file system.
\<close>

record Runner =
  step :: WorkflowAgentStep
  tool :: string
  inputs :: "string \<rightharpoonup> string"
  stepsOutput :: "string \<rightharpoonup> outputs"
  workflow_steps :: "WorkflowAgentStep list"

text \<open>A name between single quotes, as the messages show it.\<close>

definition quoted :: "string \<Rightarrow> string" where
  "quoted s = [CHR 0x27] @ s @ [CHR 0x27]"

definition loadValueByType ::
  "fs \<Rightarrow> string \<Rightarrow> WorkflowOutputType \<Rightarrow> string list \<Rightarrow> string \<times> string list" where
  "loadValueByType fs v ty warnings =
     (if ty = file_type then
        (if existsSync fs v then
           (case readFileSync fs v of
              Inr txt \<Rightarrow> (txt, warnings)
            | Inl msg \<Rightarrow>
                (v, warnings @ [''Could not read file '' @ quoted v @ '': '' @ msg]))
         else (v, warnings @ [''File '' @ quoted v @ '' does not exist'']))
      else (v, warnings))"

text \<open>
  The body of the loop of \<^verbatim>\<open>prompt()\<close> up to the replacement: the value that replaces
  the placeholder (\<open>None\<close> for \<^verbatim>\<open>undefined\<close>) and the warnings.
\<close>

definition resolve_placeholder ::
  "Runner \<Rightarrow> fs \<Rightarrow> string \<Rightarrow> string list \<Rightarrow> string option \<times> string list" where
  "resolve_placeholder r fs body warnings =
     (let placeholder = trim body;
          parts = split_on CHR ''.'' placeholder
      in if hd parts = ''inputs'' \<and> length parts = 2 then
           (let inputName = parts ! 1
            in case inputs r inputName of
                 Some inputValue \<Rightarrow> (Some inputValue, warnings)
               | None \<Rightarrow>
                   (None, warnings @ [''Input '' @ quoted inputName @ '' not provided'']))
         else if hd parts = ''steps'' \<and> length parts = 4 \<and> parts ! 2 = ''outputs'' then
           (let stepId = parts ! 1;
                outputName = parts ! 3
            in case stepsOutput r stepId of
                 None \<Rightarrow>
                   (None, warnings @ [''Step '' @ quoted stepId @ '' has not been executed yet''])
               | Some stepOutputs \<Rightarrow>
                   if Map_has stepOutputs outputName then
                     (let outputValue = (case Map_get stepOutputs outputName of Some v \<Rightarrow> v | None \<Rightarrow> []);
                          stepDef = find (\<lambda>s. step_id s = stepId) (workflow_steps r);
                          outputDef =
                            (case stepDef of
                               None \<Rightarrow> None
                             | Some sd \<Rightarrow>
                                 (case step_outputs sd of
                                    None \<Rightarrow> None
                                  | Some outs \<Rightarrow> find (\<lambda>out. out_name out = outputName) outs))
                      in case outputDef of
                           None \<Rightarrow>
                             (None, warnings @ [''The output '' @ quoted outputName
                                @ '' definition in step '' @ quoted stepId @ '' is missing''])
                         | Some od \<Rightarrow>
                             (case loadValueByType fs outputValue (out_type od) warnings of
                                (v, warnings') \<Rightarrow> (Some v, warnings')))
                   else
                     (None, warnings @ [''Output '' @ quoted outputName
                        @ '' not found in step '' @ quoted stepId]))
         else (None, warnings @ [''Invalid placeholder format: '' @ quoted placeholder]))"

text \<open>One round of the loop: resolve, then \<^verbatim>\<open>finalPrompt.replace(fullMatch, replacementValue)\<close>.\<close>

definition prompt_step ::
  "Runner \<Rightarrow> fs \<Rightarrow> string \<times> string list \<Rightarrow> string \<times> string \<Rightarrow> string \<times> string list" where
  "prompt_step r fs acc m =
     (case acc of (finalPrompt, warnings) \<Rightarrow>
        (case m of (fullMatch, body) \<Rightarrow>
           (case resolve_placeholder r fs body warnings of
              (Some replacementValue, warnings') \<Rightarrow>
                (String_replace finalPrompt fullMatch replacementValue, warnings')
            | (None, warnings') \<Rightarrow> (finalPrompt, warnings'))))"

definition substitute_placeholders :: "Runner \<Rightarrow> fs \<Rightarrow> string \<times> string list" where
  "substitute_placeholders r fs =
     foldl (prompt_step r fs) (step_prompt (step r), []) (matchAll (step_prompt (step r)))"


text \<open>The characters that the string literals of this theory cannot hold.\<close>

definition NL :: string where "NL = [CHR 0x0A]"
definition DQ :: string where "DQ = [CHR 0x22]"
definition BT :: string where "BT = [CHR 0x60]"

text \<open>\<^verbatim>\<open>generateOutputInstructions()\<close>.\<close>

definition json_template_line :: "nat \<Rightarrow> nat \<Rightarrow> WorkflowOutput \<Rightarrow> string" where
  "json_template_line n index out =
     ''  '' @ DQ @ out_name out @ DQ @ '': '' @ DQ @ ''your_'' @ toLowerCase (out_name out)
       @ ''_value_here'' @ DQ @ (if index < n - 1 then '','' else []) @ NL"

definition file_instruction :: "string \<Rightarrow> WorkflowOutput \<Rightarrow> string" where
  "file_instruction t out =
     ''- **'' @ out_name out @ ''**: '' @ description out @ NL
     @ ''  - Create this file in the current working directory'' @ NL
     @ (if t = ''gemini'' \<or> t = ''qwen''
        then ''  - When creating the file, call the write_file tool using an absolute path based on current directory. THIS IS MANDATORY'' @ NL
        else [])
     @ ''  - Filename: '' @ BT @ (case filename out of Some f \<Rightarrow> f | None \<Rightarrow> ''undefined'') @ BT
     @ NL @ NL"

definition generateOutputInstructions :: "Runner \<Rightarrow> string" where
  "generateOutputInstructions r =
     (let stepOutputs = (case step_outputs (step r) of Some outs \<Rightarrow> outs | None \<Rightarrow> [])
      in if length stepOutputs = 0 then []
         else
           (let stringOutputs = filter (\<lambda>out. out_type out = string_type) stepOutputs;
                fileOutputs = filter (\<lambda>out. out_type out = file_type) stepOutputs
            in NL @ NL @ ''## OUTPUT REQUIREMENTS'' @ NL @ NL
               @ ''You MUST provide your response in the exact format specified below:'' @ NL @ NL
               @ (if 0 < length stringOutputs then
                    ''### JSON Response'' @ NL @ NL
                    @ ''Return a JSON object with the following structure:'' @ NL @ NL
                    @ BT @ BT @ BT @ ''json'' @ NL @ ''{'' @ NL
                    @ concat (map (\<lambda>(index, out). json_template_line (length stringOutputs) index out)
                               (enumerate 0 stringOutputs))
                    @ ''}'' @ NL @ BT @ BT @ BT @ NL @ NL
                    @ ''Where:'' @ NL
                    @ concat (map (\<lambda>out. ''- '' @ BT @ out_name out @ BT @ '': '' @ description out @ NL)
                               stringOutputs)
                    @ NL
                  else [])
               @ (if 0 < length fileOutputs then
                    ''### File Creation'' @ NL @ NL
                    @ ''You MUST create the following files with the exact content needed:'' @ NL @ NL
                    @ concat (map (file_instruction (tool r)) fileOutputs)
                    @ ''IMPORTANT: All files must be created with appropriate content. Do not create empty or placeholder files.''
                    @ NL @ NL
                  else [])
               @ (if 0 < length stringOutputs \<and> 0 < length fileOutputs then
                    ''### Combined Response Format'' @ NL @ NL
                    @ ''1. First, create all required files as specified above'' @ NL
                    @ ''2. Then, provide the JSON response with the string outputs'' @ NL
                    @ ''3. Make sure all files are created before ending your response'' @ NL @ NL
                  else [])
               @ ''**CRITICAL**: Follow these output requirements exactly. ''
               @ ''Your response will be automatically parsed, so any deviation from the specified format will cause errors.''
               @ NL))"

text \<open>
  \<^verbatim>\<open>prompt()\<close>: the final prompt, and the warnings it prints (one line per warning, after
  a heading, when there is any).
\<close>

definition prompt :: "Runner \<Rightarrow> fs \<Rightarrow> string \<times> string list" where
  "prompt r fs =
     (case substitute_placeholders r fs of
        (finalPrompt, warnings) \<Rightarrow> (finalPrompt @ generateOutputInstructions r, warnings))"


section \<open>JavaScript values read from agent responses\<close>

text \<open>
  A parsed JSON value. A number is represented by the text that \<^verbatim>\<open>String(n)\<close> gives for
  it; an object by its properties in order.
\<close>

datatype json =
  JNull | JBool bool | JNum string | JStr string | JArr "json list" | JObj "(string \<times> json) list"

text \<open>
  A value that a property read can give: \<^verbatim>\<open>undefined\<close>, a JSON value, or a value that is
  not JSON (a method inherited from a prototype), of which only its \<^verbatim>\<open>String(v)\<close> text
  matters here.
\<close>

datatype jsval = Undefined | Json json | Native string

definition intercalate :: "string \<Rightarrow> string list \<Rightarrow> string" where
  "intercalate sep xs = (case xs of [] \<Rightarrow> [] | y # ys \<Rightarrow> y @ concat (map (\<lambda>z. sep @ z) ys))"

text \<open>\<^verbatim>\<open>String(v)\<close> of a JSON value; an array joins its elements with commas.\<close>

fun js_String :: "json \<Rightarrow> string" where
  "js_String JNull = ''null''"
| "js_String (JBool b) = (if b then ''true'' else ''false'')"
| "js_String (JNum n) = n"
| "js_String (JStr s) = s"
| "js_String (JArr xs) =
     intercalate '','' (map (\<lambda>x. if x = JNull then [] else js_String x) xs)"
| "js_String (JObj kvs) = ''[object Object]''"

definition ToString :: "jsval \<Rightarrow> string" where
  "ToString v = (case v of Undefined \<Rightarrow> ''undefined'' | Json j \<Rightarrow> js_String j | Native s \<Rightarrow> s)"

definition json_truthy :: "json \<Rightarrow> bool" where
  "json_truthy j =
     (case j of
        JNull \<Rightarrow> False
      | JBool b \<Rightarrow> b
      | JNum n \<Rightarrow> n \<noteq> ''0''
      | JStr s \<Rightarrow> s \<noteq> []
      | _ \<Rightarrow> True)"

definition js_truthy :: "jsval \<Rightarrow> bool" where
  "js_truthy v = (case v of Undefined \<Rightarrow> False | Json j \<Rightarrow> json_truthy j | Native s \<Rightarrow> True)"

definition js_or :: "jsval \<Rightarrow> jsval \<Rightarrow> jsval" where
  "js_or a b = (if js_truthy a then a else b)"

text \<open>\<^verbatim>\<open>typeof j === 'object'\<close> for a value that is not \<^verbatim>\<open>null\<close>.\<close>

definition is_object :: "json \<Rightarrow> bool" where
  "is_object j = (case j of JObj kvs \<Rightarrow> True | JArr xs \<Rightarrow> True | _ \<Rightarrow> False)"

definition array_index :: "string \<Rightarrow> nat \<Rightarrow> nat option" where
  "array_index k n =
     (if k \<noteq> [] \<and> list_all is_digit k \<and> nat_toString (digits_value k) = k \<and> digits_value k < n
      then Some (digits_value k) else None)"

text \<open>
  \<^verbatim>\<open>j[k]\<close> for an object or an array \<open>j\<close>: an own property first (a key of the object; an
  index or \<^verbatim>\<open>length\<close> of the array), then the prototype chain. \<open>proto is_array k\<close> is
  the \<^verbatim>\<open>String\<close> text of what \<^verbatim>\<open>Object.prototype\<close> (or \<^verbatim>\<open>Array.prototype\<close> before it)
  holds under \<open>k\<close>, if anything. On a primitive the reads of this program give
  \<^verbatim>\<open>undefined\<close>.
\<close>

definition get_property :: "(bool \<Rightarrow> string \<Rightarrow> string option) \<Rightarrow> json \<Rightarrow> string \<Rightarrow> jsval" where
  "get_property proto j k =
     (case j of
        JObj kvs \<Rightarrow>
          (case map_of kvs k of
             Some v \<Rightarrow> Json v
           | None \<Rightarrow> (case proto False k of Some s \<Rightarrow> Native s | None \<Rightarrow> Undefined))
      | JArr xs \<Rightarrow>
          (case array_index k (length xs) of
             Some i \<Rightarrow> Json (xs ! i)
           | None \<Rightarrow>
               if k = ''length'' then Json (JNum (nat_toString (length xs)))
               else (case proto True k of Some s \<Rightarrow> Native s | None \<Rightarrow> Undefined))
      | _ \<Rightarrow> Undefined)"


section \<open>Runner: errors, the agent and the launched process\<close>

datatype AgentErrorClass =
  AuthenticationError | CreditExhaustedError | TimeoutError | GenericAgentError

record AgentError =
  error_class :: AgentErrorClass
  message :: string
  code :: string
  isRetryable :: bool

text \<open>What \<^verbatim>\<open>launch\<close> resolves to (\<^verbatim>\<open>reject: false\<close>, so it does not throw).\<close>

record LaunchResult =
  exitCode :: "int option"
  stdout :: "string option"
  stderr :: "string option"
  timedOut :: bool
  isCanceled :: bool

text \<open>
  What \<^verbatim>\<open>agent.recoverFromError\<close> does: the agent has no such method, the method throws
  (with the message), or it returns nothing or a raw output with an optional notice.
\<close>

datatype recovery = NoRecoveryHook | RecoveryThrows string | Recovered "(string \<times> string option) option"

text \<open>
  What the runner takes from outside this file: \<^verbatim>\<open>JSON.parse\<close> (\<open>None\<close> when it throws),
  the prototype chain of objects and arrays (see \<open>get_property\<close>), the agent's
  \<^verbatim>\<open>extractUsageStats\<close> (\<open>None\<close> when it throws, \<open>Some None\<close> when the agent has none or
  it returns nothing) and \<^verbatim>\<open>recoverFromError\<close>, the error classes and
  \<^verbatim>\<open>parseAgentError\<close> of \<^verbatim>\<open>errors.ts\<close>, the timeout of the step in seconds, and
  \<^verbatim>\<open>path.join\<close> and \<^verbatim>\<open>path.basename\<close>.
\<close>

record 'u agent_env =
  JSON_parse_any :: "string \<Rightarrow> json option"
  prototype_property :: "bool \<Rightarrow> string \<Rightarrow> string option"
  extractUsageStats :: "json \<Rightarrow> 'u option option"
  recoverFromError :: "LaunchResult \<Rightarrow> string \<Rightarrow> recovery"
  new_AuthenticationError :: "string \<Rightarrow> string \<Rightarrow> AgentError"
  new_TimeoutError :: "string \<Rightarrow> int \<Rightarrow> AgentError"
  parseAgentError :: "string \<Rightarrow> string \<Rightarrow> int option \<Rightarrow> string \<Rightarrow> AgentError"
  getStepTimeout :: "string \<Rightarrow> int"
  join_path :: "string \<Rightarrow> string \<Rightarrow> string"
  basename :: "string \<Rightarrow> string"

text \<open>
  The lines that the runner prints with \<^verbatim>\<open>console.log\<close>, without colours and pictographs,
  oldest first. The verbose mode is off.
\<close>

type_synonym log = "string list"

section \<open>Runner: parsing the response\<close>

text \<open>
  \<^verbatim>\<open>responseContent.match(/```json\s*([\s\S]*?)\s*```/)\<close>, first group. The match starts
  at the first \<^verbatim>\<open>```json\<close>; after the white space that follows it, the lazy group ends at
  the first position from which white space and then \<^verbatim>\<open>```\<close> follow. When there is no such
  position, no later start can match either.
\<close>

fun lazy_until_fence :: "string \<Rightarrow> string option" where
  "lazy_until_fence [] = (if starts_with ''```'' [] then Some [] else None)"
| "lazy_until_fence (c # cs) =
     (if starts_with ''```'' (dropWhile js_space (c # cs)) then Some []
      else map_option (\<lambda>g. c # g) (lazy_until_fence cs))"

definition match_json_block :: "string \<Rightarrow> string option" where
  "match_json_block s =
     (case find_first ''```json'' s of
        None \<Rightarrow> None
      | Some (preceding, following) \<Rightarrow> lazy_until_fence (dropWhile js_space following))"

text \<open>
  The JSON data that \<^verbatim>\<open>extractStringOutputs\<close> recovers from the response content, with
  the lines it logs; \<open>Inl\<close> is the \<^verbatim>\<open>TypeError\<close> of calling \<^verbatim>\<open>match\<close> on a content that
  is not a string.
\<close>

definition recover_json :: "'u agent_env \<Rightarrow> jsval \<Rightarrow> log \<Rightarrow> string + (json option \<times> log)" where
  "recover_json env responseContent lg =
     (let jsonData = JSON_parse_any env (ToString responseContent)
      in if jsonData \<noteq> None \<and> jsonData \<noteq> Some JNull then Inr (jsonData, lg)
         else
           (case responseContent of
              Json (JStr s) \<Rightarrow>
                (case match_json_block s of
                   None \<Rightarrow> Inr (None, lg)
                 | Some g \<Rightarrow>
                     (case JSON_parse_any env g of
                        Some j \<Rightarrow> Inr (Some j, lg)
                      | None \<Rightarrow> Inr (None, lg @ [''Found JSON block but failed to parse it''])))
            | Undefined \<Rightarrow>
                Inl (''TypeError: Cannot read properties of undefined (reading ''
                       @ quoted ''match'' @ '')'')
            | Json JNull \<Rightarrow>
                Inl (''TypeError: Cannot read properties of null (reading ''
                       @ quoted ''match'' @ '')'')
            | _ \<Rightarrow> Inl ''TypeError: responseContent.match is not a function''))"

text \<open>\<^verbatim>\<open>jsonData && typeof jsonData === 'object'\<close>.\<close>

definition object_found :: "json option \<Rightarrow> bool" where
  "object_found jsonData = (case jsonData of Some j \<Rightarrow> json_truthy j \<and> is_object j | None \<Rightarrow> False)"

text \<open>One round of the loop of \<^verbatim>\<open>extractStringOutputs\<close>.\<close>

definition extract_string_output ::
  "'u agent_env \<Rightarrow> json option \<Rightarrow> outputs \<times> log \<Rightarrow> WorkflowOutput \<Rightarrow> outputs \<times> log" where
  "extract_string_output env jsonData acc out =
     (case acc of (outs, lg) \<Rightarrow>
        (let v = (if object_found jsonData
                  then get_property (prototype_property env) (the jsonData) (out_name out)
                  else Json (JStr ''[Could not extract from response]''));
             lg1 = (if object_found jsonData then lg
                    else lg @ [''Could not extract '' @ quoted (out_name out) @ '' from non-JSON response''])
         in if v \<noteq> Undefined then (Map_set (out_name out) (ToString v) outs, lg1)
            else (Map_set (out_name out) ''[Not found in response]'' outs,
                  lg1 @ [''Output '' @ quoted (out_name out) @ '' not found in response''])))"

definition extractStringOutputs ::
  "'u agent_env \<Rightarrow> jsval \<Rightarrow> WorkflowOutput list \<Rightarrow> outputs \<Rightarrow> log \<Rightarrow> string + (outputs \<times> log)" where
  "extractStringOutputs env responseContent stringOutputs outs lg =
     (case recover_json env responseContent lg of
        Inl e \<Rightarrow> Inl e
      | Inr (jsonData, lg1) \<Rightarrow> Inr (foldl (extract_string_output env jsonData) (outs, lg1) stringOutputs))"

text \<open>
  One round of the loop of \<^verbatim>\<open>extractFileOutputs\<close>. The file is moved into the output
  directory by copy and remove; an exception of the file system leaves the changes made
  so far and stores a placeholder.
\<close>

definition extract_file_output ::
  "'u agent_env \<Rightarrow> string option \<Rightarrow> outputs \<times> fs \<times> log \<Rightarrow> WorkflowOutput \<Rightarrow> outputs \<times> fs \<times> log" where
  "extract_file_output env outputDir acc out =
     (case acc of (outs, fs, lg) \<Rightarrow>
        (if \<not> truthy (filename out) then
           (Map_set (out_name out) ''[Missing filename]'' outs, fs,
            lg @ [''File output '' @ quoted (out_name out) @ '' missing filename''])
         else
           (let fname = the (filename out);
                failed = (\<lambda>fs' msg.
                   (Map_set (out_name out) ''[Could not read file]'' outs, fs',
                    lg @ [''Could not read file '' @ quoted fname @ '': '' @ msg]));
                read_into = (\<lambda>fs' p.
                   (case readFileSync fs' p of
                      Inl msg \<Rightarrow> failed fs' msg
                    | Inr fileContent \<Rightarrow>
                        (Map_set (out_name out @ ''_content'') fileContent
                           (Map_set (out_name out) p outs), fs', lg)))
            in if existsSync fs fname then
                 (if truthy outputDir then
                    (let p = join_path env (the outputDir) (basename env fname)
                     in case copyFileSync fs fname p of
                          Inl msg \<Rightarrow> failed fs msg
                        | Inr fs1 \<Rightarrow>
                            (case rmSync fs1 fname of
                               Inl msg \<Rightarrow> failed fs1 msg
                             | Inr fs2 \<Rightarrow> read_into fs2 p))
                  else read_into fs fname)
               else
                 (Map_set (out_name out) ''[File not created]'' outs, fs,
                  lg @ [''Expected file '' @ quoted fname @ '' was not created'']))))"

definition extractFileOutputs ::
  "'u agent_env \<Rightarrow> WorkflowOutput list \<Rightarrow> string option \<Rightarrow> outputs \<Rightarrow> fs \<Rightarrow> log \<Rightarrow>
     outputs \<times> fs \<times> log" where
  "extractFileOutputs env fileOutputs outputDir outs fs lg =
     foldl (extract_file_output env outputDir) (outs, fs, lg) fileOutputs"

definition toolUsesJsonFormat :: "string \<Rightarrow> bool" where
  "toolUsesJsonFormat t = (t = ''claude'' \<or> t = ''gemini'')"

text \<open>
  The \<^verbatim>\<open>try\<close> block of \<^verbatim>\<open>parseStepOutputs\<close> that opens the JSON envelope: the response
  content, the usage statistics and the log. A parse failure, a \<^verbatim>\<open>null\<close> envelope and a
  throwing \<^verbatim>\<open>extractUsageStats\<close> all end in the \<^verbatim>\<open>catch\<close>, which falls back to the raw
  text.
\<close>

definition open_envelope ::
  "'u agent_env \<Rightarrow> string \<Rightarrow> string \<Rightarrow> log \<Rightarrow> jsval \<times> 'u option \<times> log" where
  "open_envelope env t rawOutput lg =
     (let fallback = (Json (JStr rawOutput), None,
                      lg @ [''Expected JSON format but got invalid JSON, treating as raw text''])
      in if toolUsesJsonFormat t then
           (case JSON_parse_any env rawOutput of
              None \<Rightarrow> fallback
            | Some parsedResponse \<Rightarrow>
                if parsedResponse = JNull then fallback
                else
                  (let field = get_property (prototype_property env) parsedResponse;
                       responseContent =
                         (if t = ''claude''
                          then js_or (js_or (field ''result'') (field ''content'')) (field ''message'')
                          else js_or (js_or (field ''response'') (field ''content'')) (field ''text''))
                   in case extractUsageStats env parsedResponse of
                        None \<Rightarrow> fallback
                      | Some usage \<Rightarrow> (responseContent, usage, lg)))
         else (Json (JStr rawOutput), None, lg))"

text \<open>
  \<^verbatim>\<open>parseStepOutputs\<close>: \<open>Inl\<close> is the result \<^verbatim>\<open>{ success: false, error }\<close>, \<open>Inr\<close> the
  usage statistics, the output map, the file system and the log of a success.
\<close>

definition parseStepOutputs ::
  "'u agent_env \<Rightarrow> Runner \<Rightarrow> string \<Rightarrow> outputs \<Rightarrow> string option \<Rightarrow> fs \<Rightarrow> log \<Rightarrow>
     string + ('u option \<times> outputs \<times> fs \<times> log)" where
  "parseStepOutputs env r rawOutput outs outputDir fs lg =
     (case open_envelope env (tool r) rawOutput lg of
        (responseContent, usage, lg1) \<Rightarrow>
          (let stepOutputs = (case step_outputs (step r) of Some os \<Rightarrow> os | None \<Rightarrow> []);
               stringOutputs = filter (\<lambda>out. out_type out = string_type) stepOutputs;
               fileOutputs = filter (\<lambda>out. out_type out = file_type) stepOutputs;
               strings = (if 0 < length stringOutputs
                          then extractStringOutputs env responseContent stringOutputs outs lg1
                          else Inr (outs, lg1))
           in case strings of
                Inl e \<Rightarrow> Inl (''Failed to parse outputs: '' @ e)
              | Inr (outs1, lg2) \<Rightarrow>
                  if 0 < length fileOutputs
                  then (case extractFileOutputs env fileOutputs outputDir outs1 fs lg2 of
                          (outs2, fs2, lg3) \<Rightarrow> Inr (usage, outs2, fs2, lg3))
                  else Inr (usage, outs1, fs, lg2)))"

section \<open>Runner: running a step\<close>

text \<open>
  The result of a step. The duration (a clock difference) is not part of the model.
\<close>

record 'u RunnerStepResult =
  result_id :: string
  success :: bool
  result_error :: "string option"
  errorCode :: "string option"
  usage :: "'u option"
  result_outputs :: outputs

text \<open>\<^verbatim>\<open>tryRecoverFromAgentError\<close>: an exception of the hook is logged and swallowed.\<close>

definition tryRecoverFromAgentError ::
  "'u agent_env \<Rightarrow> LaunchResult \<Rightarrow> string \<Rightarrow> log \<Rightarrow> (string \<times> string option) option \<times> log" where
  "tryRecoverFromAgentError env result finalPrompt lg =
     (case recoverFromError env result finalPrompt of
        NoRecoveryHook \<Rightarrow> (None, lg)
      | RecoveryThrows msg \<Rightarrow> (None, lg @ [''Recovery handler failed: '' @ msg])
      | Recovered rec \<Rightarrow> (rec, lg))"

text \<open>
  The first part of \<^verbatim>\<open>run\<close> after the process has ended: the raw output of a success
  (direct or recovered, with the notice of the recovery), or the classified error.
\<close>

definition classify_result ::
  "'u agent_env \<Rightarrow> Runner \<Rightarrow> LaunchResult \<Rightarrow> bool \<Rightarrow> string \<Rightarrow> log \<Rightarrow>
     (string \<times> string option) option \<times> AgentError option \<times> log" where
  "classify_result env r result authDetected finalPrompt lg =
     (if authDetected then
        (None,
         Some (new_AuthenticationError env ''Agent requires authentication - process was terminated'' (tool r)),
         lg)
      else if exitCode result = Some 0 then
        (Some (case stdout result of Some s \<Rightarrow> s | None \<Rightarrow> [], None), None, lg)
      else
        (case tryRecoverFromAgentError env result finalPrompt lg of
           (Some rec, lg1) \<Rightarrow> (Some rec, None, lg1)
         | (None, lg1) \<Rightarrow>
             (let err = (case stderr result of Some s \<Rightarrow> s | None \<Rightarrow> []);
                  out = (case stdout result of Some s \<Rightarrow> s | None \<Rightarrow> [])
              in if timedOut result then
                   (None,
                    Some (new_TimeoutError env
                            (''Step '' @ quoted (step_name (step r)) @ '' exceeded timeout of ''
                               @ Number_toString (getStepTimeout env (step_id (step r))) @ ''s'')
                            (getStepTimeout env (step_id (step r)) * 1000)),
                    lg1)
                 else if isCanceled result then
                   (None,
                    Some (new_AuthenticationError env
                            ''Agent requires authentication - process was terminated'' (tool r)),
                    lg1)
                 else (None, Some (parseAgentError env err out (exitCode result) (tool r)), lg1))))"

text \<open>The lines printed for a classified error.\<close>

definition error_lines :: "Runner \<Rightarrow> AgentError \<Rightarrow> log" where
  "error_lines r e =
     [''Step '' @ quoted (step_name (step r)) @ '' failed: '' @ message e]
     @ (if error_class e = AuthenticationError
        then [''  Error type: Authentication required'',
              ''  Please authenticate with '' @ tool r @ '' and try again'']
        else if isRetryable e then [''  Error type: '' @ code e @ '' (retryable)'']
        else [''  Error type: '' @ code e])"

text \<open>What \<^verbatim>\<open>run\<close> has printed when the process is launched.\<close>

definition run_log0 :: "Runner \<Rightarrow> string list \<Rightarrow> log" where
  "run_log0 r warnings =
     (if warnings = [] then [] else ''Prompt Template Warnings:'' # warnings)
     @ [''Running '' @ step_name (step r) @ '' > '' @ tool r]"

text \<open>
  \<^verbatim>\<open>run(output?)\<close>, given what the launched process did: its result and whether the
  authentication prompt was seen on its standard error. \<open>Inl\<close> is the \<^verbatim>\<open>Error\<close> thrown
  when the outputs cannot be parsed.
\<close>

definition run ::
  "'u agent_env \<Rightarrow> Runner \<Rightarrow> LaunchResult \<Rightarrow> bool \<Rightarrow> string option \<Rightarrow> fs \<Rightarrow>
     (string + 'u RunnerStepResult) \<times> fs \<times> log" where
  "run env r result authDetected outputDir fs =
     (case prompt r fs of
        (finalPrompt, warnings) \<Rightarrow>
          (case classify_result env r result authDetected finalPrompt (run_log0 r warnings) of
                (rawOutput, agentError, lg1) \<Rightarrow>
                  (let parsed =
                         (case rawOutput of
                            None \<Rightarrow> Inr (None, [], fs, lg1)
                          | Some (raw, notice) \<Rightarrow>
                              (case parseStepOutputs env r raw
                                      (Map_set ''input_prompt'' finalPrompt (Map_set ''raw_output'' raw []))
                                      outputDir fs
                                      (lg1 @ (if truthy notice then [the notice] else [])) of
                                 Inl e \<Rightarrow> Inl (if e = [] then ''Failed to parse step outputs'' else e)
                               | Inr (usg, outs, fs1, lg2) \<Rightarrow>
                                   Inr (usg, outs, fs1,
                                        lg2 @ [''Step '' @ quoted (step_name (step r))
                                                 @ '' completed successfully''])))
                   in case parsed of
                        Inl e \<Rightarrow> (Inl e, fs, lg1)
                      | Inr (usg, outs, fs1, lg2) \<Rightarrow>
                          (let outs1 =
                                 (case agentError of
                                    None \<Rightarrow> outs
                                  | Some e \<Rightarrow>
                                      Map_set ''error_retryable'' (if isRetryable e then ''true'' else ''false'')
                                        (Map_set ''error_code'' (code e)
                                           (Map_set ''error'' (message e) outs)));
                               lg3 = (case agentError of None \<Rightarrow> lg2 | Some e \<Rightarrow> lg2 @ error_lines r e)
                           in (Inr \<lparr>result_id = step_id (step r),
                                    success = \<not> Map_has outs1 ''error'',
                                    result_error = Map_get outs1 ''error'',
                                    errorCode =
                                      (case agentError of
                                         None \<Rightarrow> None
                                       | Some e \<Rightarrow>
                                           if error_class e = CreditExhaustedError then Some (code e)
                                           else None),
                                    usage = usg,
                                    result_outputs = outs1\<rparr>,
                               fs1, lg3)))))"

section \<open>Session runner: parsing the response (agent, lib/acp-runner.ts)\<close>

text \<open>
  A regular expression without groups and alternatives is a list of items: one character
  of a class, or a greedy run of characters of a class. \<open>match_items\<close> gives the length
  of the match at the start of the text that backtracking finds first, \<open>match_first\<close>
  the text of the leftmost such match.
\<close>

datatype item = One "char \<Rightarrow> bool" | Many "char \<Rightarrow> bool"

fun match_items :: "item list \<Rightarrow> string \<Rightarrow> nat option" where
  "match_items [] s = Some 0"
| "match_items (One p # r) [] = None"
| "match_items (One p # r) (c # cs) =
     (if p c then map_option Suc (match_items r cs) else None)"
| "match_items (Many p # r) [] = match_items r []"
| "match_items (Many p # r) (c # cs) =
     (if p c then
        (case match_items (Many p # r) cs of
           Some n \<Rightarrow> Some (Suc n)
         | None \<Rightarrow> match_items r (c # cs))
      else match_items r (c # cs))"

fun match_first :: "item list \<Rightarrow> string \<Rightarrow> string option" where
  "match_first r [] = map_option (\<lambda>n. []) (match_items r [])"
| "match_first r (c # cs) =
     (case match_items r (c # cs) of
        Some n \<Rightarrow> Some (take n (c # cs))
      | None \<Rightarrow> match_first r cs)"

text \<open>\<^verbatim>\<open>/\{[^{}]*"[^"]+"\s*:\s*"[^"]*"[^{}]*\}/\<close>\<close>

definition inline_json_pattern :: "item list" where
  "inline_json_pattern =
     [One (\<lambda>c. c = CHR ''{''),
      Many (\<lambda>c. c \<noteq> CHR ''{'' \<and> c \<noteq> CHR ''}''),
      One (\<lambda>c. c = CHR 0x22),
      One (\<lambda>c. c \<noteq> CHR 0x22), Many (\<lambda>c. c \<noteq> CHR 0x22),
      One (\<lambda>c. c = CHR 0x22),
      Many js_space,
      One (\<lambda>c. c = CHR '':''),
      Many js_space,
      One (\<lambda>c. c = CHR 0x22),
      Many (\<lambda>c. c \<noteq> CHR 0x22),
      One (\<lambda>c. c = CHR 0x22),
      Many (\<lambda>c. c \<noteq> CHR ''{'' \<and> c \<noteq> CHR ''}''),
      One (\<lambda>c. c = CHR ''}'')]"

text \<open>
  What the session runner takes from outside: the two patterns that
  \<^verbatim>\<open>extractValueFromFileContent\<close> builds from the name of the output with
  \<^verbatim>\<open>new RegExp\<close> and matches against a content. The result is \<open>None\<close> when the
  constructor throws (the name is not a valid pattern), \<open>Some None\<close> when there is no
  match, and the first group of the match otherwise.
\<close>

record session_env =
  header_pattern :: "string \<Rightarrow> string \<Rightarrow> string option option"
  kv_pattern :: "string \<Rightarrow> string \<Rightarrow> string option option"

text \<open>
  \<^verbatim>\<open>extractJsonFromContent\<close>: the fenced block if it parses, else the inline object if it
  parses, else \<^verbatim>\<open>null\<close> (\<open>None\<close>).
\<close>

definition extractJsonFromContent :: "'u agent_env \<Rightarrow> string \<Rightarrow> json option" where
  "extractJsonFromContent env content =
     (let block = (case match_json_block content of
                     None \<Rightarrow> None
                   | Some g \<Rightarrow> JSON_parse_any env g)
      in case block of
           Some j \<Rightarrow> Some j
         | None \<Rightarrow>
             (case match_first inline_json_pattern content of
                None \<Rightarrow> None
              | Some g \<Rightarrow> JSON_parse_any env g))"

definition ends_with :: "string \<Rightarrow> string \<Rightarrow> bool" where
  "ends_with suffix s = (length suffix \<le> length s \<and> drop (length s - length suffix) s = suffix)"

text \<open>
  \<^verbatim>\<open>extractValueFromFileContent\<close> over the entries of the output map in order: \<open>Inl\<close>
  when a pattern cannot be built, \<open>Inr None\<close> for \<^verbatim>\<open>undefined\<close>.
\<close>

fun extractValueFromFileContent ::
  "session_env \<Rightarrow> string \<Rightarrow> outputs \<Rightarrow> string + string option" where
  "extractValueFromFileContent se outputName [] = Inr None"
| "extractValueFromFileContent se outputName ((key, content) # rest) =
     (if \<not> ends_with ''_content'' key then extractValueFromFileContent se outputName rest
      else
        (case header_pattern se outputName content of
           None \<Rightarrow> Inl ''SyntaxError: Invalid regular expression''
         | Some (Some g) \<Rightarrow> Inr (Some (toLowerCase g))
         | Some None \<Rightarrow>
             (case kv_pattern se outputName content of
                None \<Rightarrow> Inl ''SyntaxError: Invalid regular expression''
              | Some (Some g) \<Rightarrow> Inr (Some (toLowerCase g))
              | Some None \<Rightarrow> extractValueFromFileContent se outputName rest)))"

text \<open>
  The JSON data that the session runner starts from: the file \<^verbatim>\<open>_<stepId>_outputs.json\<close>
  when it is there, parsed and then removed.
\<close>

definition read_outputs_file ::
  "'u agent_env \<Rightarrow> string \<Rightarrow> fs \<Rightarrow> log \<Rightarrow> json option \<times> fs \<times> log" where
  "read_outputs_file env stepId fs lg =
     (let outputsFile = ''_'' @ stepId @ ''_outputs.json'';
          failed = lg @ [''Found '' @ outputsFile @ '' but failed to parse it'']
      in if existsSync fs outputsFile then
           (case readFileSync fs outputsFile of
              Inl msg \<Rightarrow> (None, fs, failed)
            | Inr content \<Rightarrow>
                (case JSON_parse_any env content of
                   None \<Rightarrow> (None, fs, failed)
                 | Some j \<Rightarrow>
                     (case rmSync fs outputsFile of
                        Inl msg \<Rightarrow> (Some j, fs, failed)
                      | Inr fs' \<Rightarrow> (Some j, fs', lg))))
         else (None, fs, lg))"

text \<open>\<^verbatim>\<open>!jsonData\<close> is false for a value that is there and truthy.\<close>

definition json_present :: "json option \<Rightarrow> bool" where
  "json_present jsonData = (case jsonData of None \<Rightarrow> False | Some j \<Rightarrow> json_truthy j)"

text \<open>The loop over the file outputs, which stops at the first content that holds JSON.\<close>

fun json_from_file_contents :: "'u agent_env \<Rightarrow> outputs \<Rightarrow> WorkflowOutput list \<Rightarrow> json option" where
  "json_from_file_contents env outs [] = None"
| "json_from_file_contents env outs (fileOutput # rest) =
     (case Map_get outs (out_name fileOutput @ ''_content'') of
        None \<Rightarrow> json_from_file_contents env outs rest
      | Some content \<Rightarrow>
          if content \<noteq> [] \<and> json_present (extractJsonFromContent env content)
          then extractJsonFromContent env content
          else json_from_file_contents env outs rest)"

definition ACPRunner_json ::
  "'u agent_env \<Rightarrow> string \<Rightarrow> WorkflowOutput list \<Rightarrow> outputs \<Rightarrow> string \<Rightarrow> fs \<Rightarrow> log \<Rightarrow>
     json option \<times> fs \<times> log" where
  "ACPRunner_json env stepId fileOutputs outs agentResponse fs lg =
     (case read_outputs_file env stepId fs lg of
        (j0, fs1, lg1) \<Rightarrow>
          (let j1 = (if \<not> json_present j0
                     then (case json_from_file_contents env outs fileOutputs of
                             Some j \<Rightarrow> Some j
                           | None \<Rightarrow> j0)
                     else j0);
               j2 = (if \<not> json_present j1 \<and> agentResponse \<noteq> []
                        \<and> json_present (extractJsonFromContent env agentResponse)
                     then extractJsonFromContent env agentResponse
                     else j1)
           in (j2, fs1, lg1)))"

text \<open>One round of the loop of the session runner's \<^verbatim>\<open>extractStringOutputs\<close>.\<close>

definition ACPRunner_extract_string_output ::
  "'u agent_env \<Rightarrow> session_env \<Rightarrow> json option \<Rightarrow> string + (outputs \<times> log) \<Rightarrow> WorkflowOutput \<Rightarrow>
     string + (outputs \<times> log)" where
  "ACPRunner_extract_string_output env se jsonData acc out =
     (case acc of
        Inl e \<Rightarrow> Inl e
      | Inr (outs, lg) \<Rightarrow>
          (let rawValue = (if object_found jsonData
                           then get_property (prototype_property env) (the jsonData) (out_name out)
                           else Undefined);
               v = (if rawValue \<noteq> Undefined then Inr (Some (ToString rawValue))
                    else extractValueFromFileContent se (out_name out) outs)
           in case v of
                Inl e \<Rightarrow> Inl e
              | Inr (Some x) \<Rightarrow> Inr (Map_set (out_name out) x outs, lg)
              | Inr None \<Rightarrow>
                  Inr (Map_set (out_name out) ''[Not found in response]'' outs,
                       lg @ [''Output '' @ quoted (out_name out) @ '' not found in response''])))"


section \<open>The status table of the specification\<close>

text \<open>
  The table as the specification words it: iteration \<^verbatim>\<open>completed\<close> gives COMPLETED,
  \<^verbatim>\<open>failed\<close> FAILED, \<^verbatim>\<open>credit_exhausted\<close> PAUSED_CREDITS, \<^verbatim>\<open>running\<close> ITERATING and
  anything else IN_PROGRESS.
\<close>

definition spec_status_table :: "string \<Rightarrow> TaskStatus" where
  "spec_status_table s =
     (if s = ''completed'' then COMPLETED
      else if s = ''failed'' then FAILED
      else if s = ''credit_exhausted'' then PAUSED_CREDITS
      else if s = ''running'' then ITERATING
      else IN_PROGRESS)"




section \<open>A concrete task, runtime and file system\<close>

text \<open>
  A small instance on which the theorems below are exercised: task 15 with two iteration
  directories, a runtime whose schema check asks for a positive id and at least one
  iteration, and an iteration loader that reads the status from \<^verbatim>\<open>status.json\<close>.
\<close>

definition example_task :: TaskDescription where
  "example_task =
     \<lparr>id = 15, status = COMPLETED, startedAt = Some ''2026-01-01T10:00:00.000Z'',
      completedAt = Some ''2026-01-01T11:00:00.000Z'', failedAt = None,
      lastIterationAt = Some ''2026-01-01T10:00:00.000Z'', lastStatusCheck = None,
      iterations = 1, error = None, restartCount = None, lastRestartAt = None,
      version = ''1.5''\<rparr>"

definition example_json :: string where
  "example_json = ''{ \"id\": 15 }''"

definition example_runtime :: "TaskDescription runtime" where
  "example_runtime =
     \<lparr>safeParse = (\<lambda>d. 0 < id d \<and> 1 \<le> iterations d),
      JSON_stringify = (\<lambda>d. example_json),
      JSON_parse = (\<lambda>s. if s = example_json then Some example_task else None),
      version_of = (\<lambda>d. Some (version d)),
      migrate_fields = (\<lambda>d tid. Some (d\<lparr>version := ''1.5''\<rparr>)),
      path_join = (\<lambda>a b. a @ ''/'' @ b),
      IterationManager_load = (\<lambda>fs p.
         case fs (p @ ''/status.json'') of
           Some (File txt) \<Rightarrow>
             Some (IterationManager
               (Some \<lparr>iter_status = txt, iter_updatedAt = ''2026-01-02T10:00:00.000Z'',
                      iter_completedAt = Some ''2026-01-02T12:00:00.000Z'',
                      iter_error = Some ''Quota exceeded''\<rparr>))
         | _ \<Rightarrow> None)\<rparr>"

definition example_manager :: "TaskDescription TaskDescriptionManager" where
  "example_manager =
     \<lparr>data = example_task, taskId = 15, basePath = ''/t/15'',
      filePath = ''/t/15/description.json''\<rparr>"

definition example_fs :: "string \<Rightarrow> fs" where
  "example_fs st =
     [''/t/15/iterations'' \<mapsto> Directory [(''1'', True), (''2'', True), (''notes'', True)],
      ''/t/15/iterations/2/status.json'' \<mapsto> File st]"

section \<open>A concrete agent and step\<close>

definition example_response :: string where
  \<open>example_response = ''Done. ```json {"outcome":"simple"} ```''\<close>

definition example_agent_env :: "unit agent_env" where
  \<open>example_agent_env =
     \<lparr>JSON_parse_any = (\<lambda>s. if s = ''{"outcome":"simple"}''
                              then Some (JObj [(''outcome'', JStr ''simple'')])
                            else if s = ''{}'' then Some (JObj [])
                            else None),
      prototype_property = (\<lambda>is_array k. if k = ''constructor''
                              then Some ''function Object() { [native code] }'' else None),
      extractUsageStats = (\<lambda>j. Some None),
      recoverFromError = (\<lambda>res p. NoRecoveryHook),
      new_AuthenticationError = (\<lambda>msg t.
         \<lparr>error_class = AuthenticationError, message = msg, code = ''AUTH_REQUIRED'',
          isRetryable = False\<rparr>),
      new_TimeoutError = (\<lambda>msg ms.
         \<lparr>error_class = TimeoutError, message = msg, code = ''TIMEOUT'', isRetryable = False\<rparr>),
      parseAgentError = (\<lambda>err out ec t.
         \<lparr>error_class = GenericAgentError, message = err, code = ''AGENT_ERROR'',
          isRetryable = False\<rparr>),
      getStepTimeout = (\<lambda>i. 600),
      join_path = (\<lambda>a b. a @ ''/'' @ b),
      basename = (\<lambda>p. p)\<rparr>\<close>

definition example_output :: WorkflowOutput where
  "example_output =
     \<lparr>out_name = ''outcome'', description = ''The outcome'', out_type = string_type,
      filename = None\<rparr>"

definition example_runner :: "string \<Rightarrow> string \<Rightarrow> Runner" where
  "example_runner template x =
     \<lparr>step = \<lparr>step_id = ''fix'', step_name = ''Fix'', step_prompt = template, step_outputs = None\<rparr>,
      tool = ''codex'',
      inputs = [''x'' \<mapsto> x],
      stepsOutput = [''s1'' \<mapsto> [(''f'', ''/work/plan.md'')]],
      workflow_steps =
        [\<lparr>step_id = ''s1'', step_name = ''Plan'', step_prompt = ''Plan it'',
          step_outputs = Some [\<lparr>out_name = ''f'', description = ''The plan'', out_type = file_type,
                                 filename = Some ''plan.md''\<rparr>]\<rparr>]\<rparr>"

definition example_launch :: "int \<Rightarrow> string \<Rightarrow> LaunchResult" where
  "example_launch ec out =
     \<lparr>exitCode = Some ec, stdout = Some out, stderr = Some ''boom'', timedOut = False,
      isCanceled = False\<rparr>"


section \<open>Properties of the task state machine\<close>

lemma setStatus_data_status [simp]: "status (setStatus_data st md now d) = st"
  by (cases st) (simp_all add: setStatus_data_def Let_def)

lemma setStatus_manager:
  "fst (snd (setStatus rt st md now m fs)) = m\<lparr>data := setStatus_data st md now (data m)\<rparr>"
  by (simp add: setStatus_def save_after_def split: sum.splits)

lemma updateStatusFromIteration_found:
  assumes "getLastIteration rt m fs = Inr (Some it)" and "iteration_status it = Some st"
  shows "updateStatusFromIteration rt now m fs =
           (if fst (derive_status st) = COMPLETED \<and> (status (data m) = MERGED \<or> status (data m) = PUSHED)
            then (None, m, fs)
            else setStatus rt (fst (derive_status st))
                   (Some \<lparr>timestamp = fst (snd (derive_status st)),
                          md_error = snd (snd (derive_status st))\<rparr>) now m fs)"
  using assms by (simp add: updateStatusFromIteration_def split: prod.splits)

lemma derive_status_table: "fst (derive_status st) = spec_status_table (iter_status st)"
  by (simp add: derive_status_def spec_status_table_def)

text \<open>
  Claim C8. Setting the status to MERGED or PUSHED never overwrites a completion timestamp:
  when \<^verbatim>\<open>completedAt\<close> is set (a non-empty string, as the schema demands of every stored
  timestamp) it is left as it is, and only when it is unset is it assigned the timestamp of
  the call.
\<close>

theorem setStatus_merged_pushed_keeps_completedAt:
  assumes "st = MERGED \<or> st = PUSHED"
  shows "completedAt (data (fst (snd (setStatus rt st md now m fs)))) =
           (if truthy (completedAt (data m)) then completedAt (data m)
            else Some (or_else (case md of None \<Rightarrow> None | Some x \<Rightarrow> timestamp x) now))"
  using assms by (auto simp add: setStatus_manager setStatus_data_def Let_def)

theorem setStatus_merged_pushed_keeps_completedAt_witness:
  "completedAt (data (fst (snd (setStatus example_runtime MERGED None ''2026-02-02T00:00:00.000Z''
       example_manager Map.empty)))) = Some ''2026-01-01T11:00:00.000Z''
   \<and> completedAt (data (fst (snd (setStatus example_runtime PUSHED None ''2026-02-02T00:00:00.000Z''
       (example_manager\<lparr>data := example_task\<lparr>completedAt := None\<rparr>\<rparr>) Map.empty))))
      = Some ''2026-02-02T00:00:00.000Z''"
  using setStatus_merged_pushed_keeps_completedAt [of MERGED example_runtime None "''2026-02-02T00:00:00.000Z''" example_manager Map.empty]
    setStatus_merged_pushed_keeps_completedAt [of PUSHED example_runtime None "''2026-02-02T00:00:00.000Z''"
          "example_manager\<lparr>data := example_task\<lparr>completedAt := None\<rparr>\<rparr>" Map.empty]
  by (simp add: example_manager_def example_task_def truthy_def or_else_def)


lemma setStatus_data_error:
  "error (setStatus_data st md now d) =
     (if (st = FAILED \<or> st = PAUSED_CREDITS) \<and> truthy (case md of None \<Rightarrow> None | Some x \<Rightarrow> md_error x)
      then (case md of None \<Rightarrow> None | Some x \<Rightarrow> md_error x) else error d)"
  by (cases st) (simp_all add: setStatus_data_def Let_def)

lemma derive_status_error:
  "snd (snd (derive_status st)) =
     (if iter_status st = ''failed'' \<or> iter_status st = ''credit_exhausted'' then iter_error st else None)"
  by (simp add: derive_status_def)

lemma truthy_None [simp]: "\<not> truthy None"
  by (simp add: truthy_def)


text \<open>
  Claim C1. When the task has a latest iteration with a status document,
  \<^verbatim>\<open>updateStatusFromIteration\<close> sets the task status by the fixed table (completed to
  COMPLETED, failed to FAILED, credit_exhausted to PAUSED_CREDITS, running to ITERATING,
  anything else to IN_PROGRESS); for failed and credit_exhausted the error of the iteration
  becomes the error of the task; and when the task is MERGED or PUSHED and the table gives
  COMPLETED, nothing is changed at all.
\<close>

theorem updateStatusFromIteration_table:
  assumes "getLastIteration rt m fs = Inr (Some it)" and "iteration_status it = Some st"
  shows "status (data (fst (snd (updateStatusFromIteration rt now m fs)))) =
           (if spec_status_table (iter_status st) = COMPLETED
                \<and> (status (data m) = MERGED \<or> status (data m) = PUSHED)
            then status (data m) else spec_status_table (iter_status st))
         \<and> error (data (fst (snd (updateStatusFromIteration rt now m fs)))) =
           (if (iter_status st = ''failed'' \<or> iter_status st = ''credit_exhausted'')
                \<and> truthy (iter_error st)
            then iter_error st else error (data m))
         \<and> (spec_status_table (iter_status st) = COMPLETED
                \<and> (status (data m) = MERGED \<or> status (data m) = PUSHED)
              \<longrightarrow> updateStatusFromIteration rt now m fs = (None, m, fs))"
  using assms
  by (simp add: updateStatusFromIteration_found derive_status_table setStatus_manager
        setStatus_data_error derive_status_error spec_status_table_def)

lemma example_last_iteration_credit:
  "getLastIteration example_runtime example_manager (example_fs ''credit_exhausted'') =
     Inr (Some (IterationManager
               (Some \<lparr>iter_status = ''credit_exhausted'',
                      iter_updatedAt = ''2026-01-02T10:00:00.000Z'',
                      iter_completedAt = Some ''2026-01-02T12:00:00.000Z'',
                      iter_error = Some ''Quota exceeded''\<rparr>)))"
  by code_simp

lemma example_last_iteration_failed:
  "getLastIteration example_runtime (example_manager\<lparr>data := example_task\<lparr>status := MERGED\<rparr>\<rparr>)
       (example_fs ''failed'') =
     Inr (Some (IterationManager
               (Some \<lparr>iter_status = ''failed'',
                      iter_updatedAt = ''2026-01-02T10:00:00.000Z'',
                      iter_completedAt = Some ''2026-01-02T12:00:00.000Z'',
                      iter_error = Some ''Quota exceeded''\<rparr>)))"
  by code_simp

theorem updateStatusFromIteration_table_witness:
  "status (data (fst (snd (updateStatusFromIteration example_runtime ''2026-03-03T00:00:00.000Z''
        example_manager (example_fs ''credit_exhausted''))))) = PAUSED_CREDITS
   \<and> error (data (fst (snd (updateStatusFromIteration example_runtime ''2026-03-03T00:00:00.000Z''
        example_manager (example_fs ''credit_exhausted''))))) = Some ''Quota exceeded''"
  using updateStatusFromIteration_table [OF example_last_iteration_credit, of _ "''2026-03-03T00:00:00.000Z''"]
  by (simp add: spec_status_table_def truthy_def)

text \<open>
  Claim C10. The stickiness of MERGED and PUSHED covers a derived COMPLETED only: a task
  in MERGED or PUSHED whose latest iteration reports failed becomes FAILED, and one whose
  latest iteration reports credit_exhausted becomes PAUSED_CREDITS.
\<close>

theorem updateStatusFromIteration_overwrites_terminal:
  assumes "getLastIteration rt m fs = Inr (Some it)" and "iteration_status it = Some st"
    and "status (data m) = MERGED \<or> status (data m) = PUSHED"
  shows "(iter_status st = ''failed'' \<longrightarrow>
            status (data (fst (snd (updateStatusFromIteration rt now m fs)))) = FAILED)
         \<and> (iter_status st = ''credit_exhausted'' \<longrightarrow>
            status (data (fst (snd (updateStatusFromIteration rt now m fs)))) = PAUSED_CREDITS)"
  using assms
  by (simp add: updateStatusFromIteration_found derive_status_def setStatus_manager)

theorem updateStatusFromIteration_overwrites_terminal_witness:
  "status (data (example_manager\<lparr>data := example_task\<lparr>status := MERGED\<rparr>\<rparr>)) = MERGED
   \<and> status (data (fst (snd (updateStatusFromIteration example_runtime ''2026-03-03T00:00:00.000Z''
        (example_manager\<lparr>data := example_task\<lparr>status := MERGED\<rparr>\<rparr>) (example_fs ''failed''))))) = FAILED"
  using updateStatusFromIteration_overwrites_terminal [OF example_last_iteration_failed, of _ "''2026-03-03T00:00:00.000Z''"]
  by simp

lemma restart_manager:
  "fst (snd (restart rt ts now now' m fs)) =
     m\<lparr>data := setStatus_data IN_PROGRESS
                  (Some \<lparr>timestamp = Some (or_else ts now), md_error = None\<rparr>) now'
                  ((data m)\<lparr>restartCount :=
                              Some ((case restartCount (data m) of None \<Rightarrow> 0 | Some c \<Rightarrow> c) + 1),
                            lastRestartAt := Some (or_else ts now)\<rparr>)\<rparr>"
  by (simp add: restart_def Let_def setStatus_manager)

lemma setStatus_data_IN_PROGRESS_frame:
  "restartCount (setStatus_data IN_PROGRESS md now d) = restartCount d"
  "lastRestartAt (setStatus_data IN_PROGRESS md now d) = lastRestartAt d"
  by (simp_all add: setStatus_data_def Let_def)

text \<open>
  Claim C7. Restarting a task in FAILED sets its status to IN_PROGRESS, increments
  \<^verbatim>\<open>restartCount\<close> by exactly 1 (counting from 0 when it is absent) and sets
  \<^verbatim>\<open>lastRestartAt\<close>; the restart command performs this restart for a FAILED task and
  rejects a task in IN_PROGRESS without touching it.
\<close>

theorem restart_semantics:
  "(status (data m) = FAILED \<longrightarrow>
      status (data (fst (snd (restart rt ts now now' m fs)))) = IN_PROGRESS
      \<and> restartCount (data (fst (snd (restart rt ts now now' m fs)))) =
          Some ((case restartCount (data m) of None \<Rightarrow> 0 | Some c \<Rightarrow> c) + 1)
      \<and> lastRestartAt (data (fst (snd (restart rt ts now now' m fs)))) = Some (or_else ts now))
   \<and> (parseInt arg = Some n \<and> getTask n = Some m \<and> status (data m) = FAILED \<longrightarrow>
        restartCommand rt arg (Inr getTask) now now' fs =
          (case restart rt (Some now) now' now' m fs of
             (Some e, m', fs') \<Rightarrow> Inl (RestartFailed e)
           | (None, m', fs') \<Rightarrow> Inr (m', fs')))
   \<and> (parseInt arg = Some n \<and> getTask n = Some m \<and> status (data m) = IN_PROGRESS \<longrightarrow>
        restartCommand rt arg (Inr getTask) now now' fs = Inl (NotRestartable IN_PROGRESS))"
  by (simp add: restart_manager setStatus_data_IN_PROGRESS_frame restartCommand_def
        isNew_def isFailed_def isPausedCredits_def)

lemma parseInt_15: "parseInt ''15'' = Some 15"
  by code_simp

theorem restart_semantics_witness:
  "status (data (fst (snd (restart example_runtime (Some ''2026-04-04T00:00:00.000Z'') ''n1'' ''n2''
       (example_manager\<lparr>data := example_task\<lparr>status := FAILED\<rparr>\<rparr>) Map.empty)))) = IN_PROGRESS
   \<and> restartCount (data (fst (snd (restart example_runtime (Some ''2026-04-04T00:00:00.000Z'') ''n1'' ''n2''
       (example_manager\<lparr>data := example_task\<lparr>status := FAILED\<rparr>\<rparr>) Map.empty)))) = Some 1
   \<and> lastRestartAt (data (fst (snd (restart example_runtime (Some ''2026-04-04T00:00:00.000Z'') ''n1'' ''n2''
       (example_manager\<lparr>data := example_task\<lparr>status := FAILED\<rparr>\<rparr>) Map.empty))))
        = Some ''2026-04-04T00:00:00.000Z''
   \<and> restartCommand example_runtime ''15''
        (Inr (\<lambda>i. if i = 15 then Some (example_manager\<lparr>data := example_task\<lparr>status := IN_PROGRESS\<rparr>\<rparr>) else None))
        ''n1'' ''n2'' Map.empty = Inl (NotRestartable IN_PROGRESS)"
  using restart_semantics [of "example_manager\<lparr>data := example_task\<lparr>status := FAILED\<rparr>\<rparr>" example_runtime
              "Some ''2026-04-04T00:00:00.000Z''" "''n1''" "''n2''" Map.empty "''15''" 15
              "\<lambda>i. if i = 15 then Some (example_manager\<lparr>data := example_task\<lparr>status := IN_PROGRESS\<rparr>\<rparr>) else None"]
    restart_semantics [of "example_manager\<lparr>data := example_task\<lparr>status := IN_PROGRESS\<rparr>\<rparr>" example_runtime
              "Some ''2026-04-04T00:00:00.000Z''" "''n1''" "''n2''" Map.empty "''15''" 15
              "\<lambda>i. if i = 15 then Some (example_manager\<lparr>data := example_task\<lparr>status := IN_PROGRESS\<rparr>\<rparr>) else None"]
  by (simp add: parseInt_15 example_task_def or_else_def)

section \<open>Properties of saving and loading\<close>






section \<open>Properties of the credit exhaustion check\<close>













section \<open>Properties of the runner\<close>

lemma map_of_Map_set: "map_of (Map_set k v m) k' = (if k' = k then Some v else map_of m k')"
  by (induction m) auto

lemma Map_has_Map_set: "Map_has (Map_set k v m) k' \<longleftrightarrow> k' = k \<or> Map_has m k'"
  by (simp add: Map_has_def map_of_Map_set)


lemma extract_string_output_keeps:
  "Map_has (fst acc) k \<Longrightarrow> Map_has (fst (extract_string_output env jd acc out)) k"
  by (cases acc) (simp add: extract_string_output_def Let_def Map_has_Map_set)

lemma foldl_extract_string_output_keeps:
  "Map_has (fst acc) k \<Longrightarrow> Map_has (fst (foldl (extract_string_output env jd) acc xs)) k"
  by (induction xs arbitrary: acc) (simp_all add: extract_string_output_keeps)

lemma extractStringOutputs_keeps:
  assumes "extractStringOutputs env rc xs outs lg = Inr (outs', lg')" and "Map_has outs k"
  shows "Map_has outs' k"
proof -
  from assms(1) obtain jd lg1 where
    "foldl (extract_string_output env jd) (outs, lg1) xs = (outs', lg')"
    by (auto simp add: extractStringOutputs_def split: sum.splits prod.splits)
  then have "outs' = fst (foldl (extract_string_output env jd) (outs, lg1) xs)" by simp
  then show ?thesis
    using foldl_extract_string_output_keeps [of "(outs, lg1)" k env jd xs] assms(2) by simp
qed


lemma extract_file_output_keeps:
  "Map_has (fst acc) k \<Longrightarrow> Map_has (fst (extract_file_output env dir acc out)) k"
  by (cases acc)
     (simp add: extract_file_output_def Let_def Map_has_Map_set split: sum.splits)

lemma foldl_extract_file_output_keeps:
  "Map_has (fst acc) k \<Longrightarrow> Map_has (fst (foldl (extract_file_output env dir) acc xs)) k"
  by (induction xs arbitrary: acc) (simp_all add: extract_file_output_keeps)

lemma extractFileOutputs_keeps:
  "Map_has outs k \<Longrightarrow> Map_has (fst (extractFileOutputs env xs dir outs fs lg)) k"
  by (simp add: extractFileOutputs_def foldl_extract_file_output_keeps)


lemma parseStepOutputs_keeps:
  assumes p: "parseStepOutputs env r raw outs dir fs lg = Inr (usg, outs', fs', lg')"
    and k: "Map_has outs k"
  shows "Map_has outs' k"
proof -
  obtain rc u lg1 where env: "open_envelope env (tool r) raw lg = (rc, u, lg1)"
    by (cases "open_envelope env (tool r) raw lg") auto
  define stepOutputs where "stepOutputs = (case step_outputs (step r) of Some os \<Rightarrow> os | None \<Rightarrow> [])"
  define so where "so = filter (\<lambda>out. out_type out = string_type) stepOutputs"
  define fo where "fo = filter (\<lambda>out. out_type out = file_type) stepOutputs"
  define strings where
    "strings = (if 0 < length so then extractStringOutputs env rc so outs lg1 else Inr (outs, lg1))"
  have unfolded: "parseStepOutputs env r raw outs dir fs lg =
      (case strings of
         Inl e \<Rightarrow> Inl (''Failed to parse outputs: '' @ e)
       | Inr (outs1, lg2) \<Rightarrow>
           if 0 < length fo
           then (case extractFileOutputs env fo dir outs1 fs lg2 of
                   (outs2, fs2, lg3) \<Rightarrow> Inr (u, outs2, fs2, lg3))
           else Inr (u, outs1, fs, lg2))"
    unfolding parseStepOutputs_def env Let_def stepOutputs_def so_def fo_def strings_def
    by simp
  from p obtain outs1 lg2 where s: "strings = Inr (outs1, lg2)"
    and rest: "(if 0 < length fo
                then (case extractFileOutputs env fo dir outs1 fs lg2 of
                        (outs2, fs2, lg3) \<Rightarrow> Inr (u, outs2, fs2, lg3))
                else Inr (u, outs1, fs, lg2)) = (Inr (usg, outs', fs', lg') :: string + _)"
    unfolding unfolded by (cases strings) auto
  have k1: "Map_has outs1 k"
  proof (cases "0 < length so")
    case True
    with s have "extractStringOutputs env rc so outs lg1 = Inr (outs1, lg2)"
      by (simp add: strings_def)
    then show ?thesis using k by (rule extractStringOutputs_keeps)
  next
    case False
    with s k show ?thesis by (simp add: strings_def)
  qed
  show ?thesis
  proof (cases "0 < length fo")
    case True
    with rest have "outs' = fst (extractFileOutputs env fo dir outs1 fs lg2)"
      by (auto split: prod.splits)
    then show ?thesis using k1 by (simp add: extractFileOutputs_keeps)
  next
    case False
    with rest k1 show ?thesis by simp
  qed
qed


lemma classify_result_cases:
  "(\<not> authDetected \<and> (exitCode result = Some 0
       \<or> (\<exists>rec. recoverFromError env result finalPrompt = Recovered (Some rec)))
     \<longrightarrow> (\<exists>raw lg1. classify_result env r result authDetected finalPrompt lg = (Some raw, None, lg1)))
   \<and> (\<not> (\<not> authDetected \<and> (exitCode result = Some 0
       \<or> (\<exists>rec. recoverFromError env result finalPrompt = Recovered (Some rec))))
     \<longrightarrow> (\<exists>e lg1. classify_result env r result authDetected finalPrompt lg = (None, Some e, lg1)))"
  by (cases "recoverFromError env result finalPrompt")
     (auto simp add: classify_result_def tryRecoverFromAgentError_def Let_def split: option.splits)

lemma run_success_path:
  assumes pr: "prompt r fs = (finalPrompt, warnings)"
    and c: "classify_result env r result authDetected finalPrompt (run_log0 r warnings)
              = (Some (raw, notice), None, lg1)"
    and run: "run env r result authDetected outputDir fs = (Inr res, fs', lg)"
  shows "\<exists>usg lg2. parseStepOutputs env r raw
            (Map_set ''input_prompt'' finalPrompt (Map_set ''raw_output'' raw []))
            outputDir fs (lg1 @ (if truthy notice then [the notice] else []))
          = Inr (usg, result_outputs res, fs', lg2)"
  using run c
  by (auto simp add: run_def pr Let_def split: sum.splits prod.splits)

lemma run_error_path:
  assumes pr: "prompt r fs = (finalPrompt, warnings)"
    and c: "classify_result env r result authDetected finalPrompt (run_log0 r warnings)
              = (None, Some e, lg1)"
  shows "fst (run env r result authDetected outputDir fs) =
           Inr \<lparr>result_id = step_id (step r), success = False, result_error = Some (message e),
                errorCode = (if error_class e = CreditExhaustedError then Some (code e) else None),
                usage = None,
                result_outputs = [(''error'', message e), (''error_code'', code e),
                   (''error_retryable'', if isRetryable e then ''true'' else ''false'')]\<rparr>"
  using c
  by (simp add: run_def pr Let_def Map_has_def Map_get_def)

text \<open>
  Claim C2, as the code has it. When \<^verbatim>\<open>run\<close> returns a result, either the step obtained
  a raw output (no authentication prompt, and exit code 0 or a recovery by the agent) and
  the output map contains \<^verbatim>\<open>raw_output\<close> and \<^verbatim>\<open>input_prompt\<close>; or the step ended in a
  classified error and the output map is exactly \<^verbatim>\<open>error\<close>, \<^verbatim>\<open>error_code\<close>,
  \<^verbatim>\<open>error_retryable\<close>, without \<^verbatim>\<open>raw_output\<close> and \<^verbatim>\<open>input_prompt\<close>.
\<close>

theorem run_output_keys:
  assumes run0: "fst (run env r result authDetected outputDir fs) = Inr res"
  shows "if \<not> authDetected \<and> (exitCode result = Some 0
             \<or> (\<exists>rec. recoverFromError env result (fst (prompt r fs)) = Recovered (Some rec)))
         then Map_has (result_outputs res) ''raw_output'' \<and> Map_has (result_outputs res) ''input_prompt''
         else (\<exists>e::AgentError. result_outputs res =
                 [(''error'', message e), (''error_code'', code e),
                  (''error_retryable'', if isRetryable e then ''true'' else ''false'')])"
proof -
  obtain fs' lg where run: "run env r result authDetected outputDir fs = (Inr res, fs', lg)"
    using run0 by (cases "run env r result authDetected outputDir fs") auto
  obtain finalPrompt warnings where pr: "prompt r fs = (finalPrompt, warnings)"
    by (cases "prompt r fs") auto
  let ?ok = "\<not> authDetected \<and> (exitCode result = Some 0
             \<or> (\<exists>rec. recoverFromError env result (fst (prompt r fs)) = Recovered (Some rec)))"
  show ?thesis
  proof (cases ?ok)
    case True
    then obtain raw notice lg1 where
      c: "classify_result env r result authDetected finalPrompt (run_log0 r warnings)
            = (Some (raw, notice), None, lg1)"
      using classify_result_cases [of authDetected result env finalPrompt r "run_log0 r warnings"]
      by (fastforce simp add: pr)
    from run_success_path [OF pr c run] obtain usg lg2 where
      p: "parseStepOutputs env r raw
            (Map_set ''input_prompt'' finalPrompt (Map_set ''raw_output'' raw []))
            outputDir fs (lg1 @ (if truthy notice then [the notice] else []))
          = Inr (usg, result_outputs res, fs', lg2)" by blast
    have "Map_has (result_outputs res) ''raw_output''"
      by (rule parseStepOutputs_keeps [OF p]) (simp add: Map_has_def)
    moreover have "Map_has (result_outputs res) ''input_prompt''"
      by (rule parseStepOutputs_keeps [OF p]) (simp add: Map_has_def)
    ultimately show ?thesis using True by simp
  next
    case False
    then obtain e lg1 where
      c: "classify_result env r result authDetected finalPrompt (run_log0 r warnings)
            = (None, Some e, lg1)"
      using classify_result_cases [of authDetected result env finalPrompt r "run_log0 r warnings"]
      by (auto simp add: pr)
    from run_error_path [OF pr c, of outputDir] run
    have "result_outputs res = [(''error'', message e), (''error_code'', code e),
                   (''error_retryable'', if isRetryable e then ''true'' else ''false'')]"
      by auto
    then have "\<exists>e::AgentError. result_outputs res = [(''error'', message e), (''error_code'', code e),
                   (''error_retryable'', if isRetryable e then ''true'' else ''false'')]"
      by (rule exI [of _ e])
    with False show ?thesis by (simp only: if_not_P if_False)
  qed
qed








lemma recover_json_text:
  "\<exists>jd lg1. recover_json env (Json (JStr s)) lg = Inr (jd, lg1)"
  by (simp add: recover_json_def Let_def split: option.splits)


lemma parseStepOutputs_plain_tool:
  assumes "\<not> toolUsesJsonFormat (tool r)"
  shows "\<exists>x. parseStepOutputs env r raw outs dir fs lg = Inr x"
proof -
  have env: "open_envelope env (tool r) raw lg = (Json (JStr raw), None, lg)"
    using assms by (simp add: open_envelope_def Let_def)
  define stepOutputs where "stepOutputs = (case step_outputs (step r) of Some os \<Rightarrow> os | None \<Rightarrow> [])"
  define so where "so = filter (\<lambda>out. out_type out = string_type) stepOutputs"
  define fo where "fo = filter (\<lambda>out. out_type out = file_type) stepOutputs"
  define strings where
    "strings = (if 0 < length so then extractStringOutputs env (Json (JStr raw)) so outs lg
                else Inr (outs, lg))"
  have unfolded: "parseStepOutputs env r raw outs dir fs lg =
      (case strings of
         Inl e \<Rightarrow> Inl (''Failed to parse outputs: '' @ e)
       | Inr (outs1, lg2) \<Rightarrow>
           if 0 < length fo
           then (case extractFileOutputs env fo dir outs1 fs lg2 of
                   (outs2, fs2, lg3) \<Rightarrow> Inr (None, outs2, fs2, lg3))
           else Inr (None, outs1, fs, lg2))"
    unfolding parseStepOutputs_def env Let_def stepOutputs_def so_def fo_def strings_def
    by simp
  obtain jd lg1 where "recover_json env (Json (JStr raw)) lg = Inr (jd, lg1)"
    using recover_json_text by blast
  then have "\<exists>y. extractStringOutputs env (Json (JStr raw)) so outs lg = Inr y"
    by (simp add: extractStringOutputs_def)
  then obtain outs1 lg2 where s: "strings = Inr (outs1, lg2)"
    by (cases "0 < length so") (auto simp add: strings_def)
  show ?thesis
    unfolding unfolded s
    by (cases "extractFileOutputs env fo dir outs1 fs lg2") simp
qed

lemma ACPRunner_round_Inl [simp]:
  "ACPRunner_extract_string_output env se jd (Inl e) out = Inl e"
  by (simp add: ACPRunner_extract_string_output_def)

lemma ACPRunner_fold_Inl [simp]:
  "foldl (ACPRunner_extract_string_output env se jd) (Inl e) xs = Inl e"
  by (induction xs) simp_all







lemma example_ACPRunner_json:
  "fst (ACPRunner_json example_agent_env ''plan'' [] [] ''I am done'' Map.empty []) = None
   \<and> snd (snd (ACPRunner_json example_agent_env ''plan'' [] [] ''I am done'' Map.empty [])) = []"
  by code_simp



text \<open>
  A step does fail on an output that cannot be found when the tool wraps its response in
  a JSON envelope and the envelope has no content: the content is then \<^verbatim>\<open>undefined\<close>,
  \<^verbatim>\<open>match\<close> throws, and \<^verbatim>\<open>run\<close> rethrows the parse error.
\<close>

lemma run_missing_content_fails:
  "fst (run example_agent_env
          ((example_runner ''Fix it'' ''x'')
             \<lparr>tool := ''claude'',
              step := (step (example_runner ''Fix it'' ''x''))\<lparr>step_outputs := Some [example_output]\<rparr>\<rparr>)
          (example_launch 0 ''{}'') False None Map.empty)
   = Inl (''Failed to parse outputs: TypeError: Cannot read properties of undefined (reading ''
          @ quoted ''match'' @ '')'')"
  by code_simp





text \<open>
  The claim as it is stated fails: a step whose process exits with code 1 returns an
  output map without \<^verbatim>\<open>raw_output\<close> and \<^verbatim>\<open>input_prompt\<close>.
\<close>

theorem run_error_without_raw_output_counterexample:
  "fst (run example_agent_env (example_runner ''Fix: {{inputs.x}}'' ''the bug'')
          (example_launch 1 ''out'') False None Map.empty) =
     Inr \<lparr>result_id = ''fix'', success = False, result_error = Some ''boom'',
          errorCode = None, usage = None,
          result_outputs = [(''error'', ''boom''), (''error_code'', ''AGENT_ERROR''),
                            (''error_retryable'', ''false'')]\<rparr>
   \<and> \<not> Map_has [(''error'', ''boom''), (''error_code'', ''AGENT_ERROR''),
                  (''error_retryable'', ''false'')] ''raw_output''"
  by code_simp

lemma example_run_ok:
  "fst (run example_agent_env (example_runner ''Fix: {{inputs.x}}'' ''the bug'')
          (example_launch 0 ''I am done'') False None Map.empty) =
     Inr \<lparr>result_id = ''fix'', success = True, result_error = None,
          errorCode = None, usage = None,
          result_outputs = [(''raw_output'', ''I am done''), (''input_prompt'', ''Fix: the bug'')]\<rparr>"
  by code_simp

theorem run_output_keys_witness:
  "Map_has [(''raw_output'', ''I am done''), (''input_prompt'', ''Fix: the bug'')] ''raw_output''
   \<and> Map_has [(''raw_output'', ''I am done''), (''input_prompt'', ''Fix: the bug'')] ''input_prompt''"
  using run_output_keys [OF example_run_ok] by (simp add: example_launch_def)

text \<open>
  A value without a dollar sign is inserted as it is, in place of the first occurrence of
  the token in the prompt.
\<close>

lemma GetSubstitution_literal:
  "CHR ''$'' \<notin> set t \<Longrightarrow> GetSubstitution m b a t = t"
  by (induction m b a t rule: GetSubstitution.induct) auto

lemma find_first_split:
  "find_first pat s = Some (pre, post) \<Longrightarrow> s = pre @ pat @ post"
proof (induction s arbitrary: pre post)
  case Nil
  then show ?case by (simp split: if_splits)
next
  case (Cons c cs)
  show ?case
  proof (cases "starts_with pat (c # cs)")
    case True
    with Cons.prems have "pre = []" "post = drop (length pat) (c # cs)" by auto
    moreover from True have "take (length pat) (c # cs) = pat" by (simp add: starts_with_def)
    ultimately show ?thesis by (metis append_Nil append_take_drop_id)
  next
    case False
    with Cons.prems obtain pre' where "find_first pat cs = Some (pre', post)" "pre = c # pre'"
      by auto
    with Cons.IH show ?thesis by simp
  qed
qed

lemma String_replace_literal:
  assumes "find_first pat s = Some (pre, post)" and "CHR ''$'' \<notin> set v"
  shows "String_replace s pat v = pre @ v @ post"
  using assms by (simp add: String_replace_def GetSubstitution_literal)

text \<open>
  Claim C4 fails on the code: \<^verbatim>\<open>String.prototype.replace\<close> reads \<^verbatim>\<open>$&\<close> and \<^verbatim>\<open>$$\<close> in the
  value as replacement patterns, so the value of the input does not appear verbatim; and
  it replaces the first occurrence of the token in the prompt as it stands, so a value
  that holds the token takes the replacement meant for the second occurrence.
\<close>

theorem prompt_input_value_not_verbatim:
  "fst (prompt (example_runner ''Fix: {{inputs.x}}'' ''a$&b'') Map.empty) = ''Fix: a{{inputs.x}}b''
   \<and> fst (prompt (example_runner ''Fix: {{inputs.x}}'' ''costs $$5'') Map.empty) = ''Fix: costs $5''
   \<and> fst (prompt (example_runner ''{{inputs.x}} and {{inputs.x}}'' ''see {{inputs.x}}'') Map.empty)
       = ''see see {{inputs.x}} and {{inputs.x}}''"
  by code_simp

text \<open>
  What \<^verbatim>\<open>prompt()\<close> takes to replace a placeholder of a step output declared as a file:
  the content of the file when it can be read, the path with a warning otherwise.
\<close>

lemma loadValueByType_file:
  "loadValueByType fs p file_type ws =
     (case fs p of
        Some (File txt) \<Rightarrow> (txt, ws)
      | Some (Directory es) \<Rightarrow>
          (p, ws @ [''Could not read file '' @ quoted p @ '': ''
                      @ ''EISDIR: illegal operation on a directory, read''])
      | Some (Unreadable msg) \<Rightarrow> (p, ws @ [''Could not read file '' @ quoted p @ '': '' @ msg])
      | None \<Rightarrow> (p, ws @ [''File '' @ quoted p @ '' does not exist'']))"
  by (simp add: loadValueByType_def existsSync_def readFileSync_def split: option.splits fentry.splits)

lemma resolve_placeholder_file_output:
  assumes parts: "split_on CHR ''.'' (trim body) = [''steps'', stepId, ''outputs'', outputName]"
    and ran: "stepsOutput r stepId = Some outs"
    and has: "Map_get outs outputName = Some path"
    and sd: "find (\<lambda>s. step_id s = stepId) (workflow_steps r) = Some sd"
    and ods: "step_outputs sd = Some ods"
    and od: "find (\<lambda>out. out_name out = outputName) ods = Some od"
    and ty: "out_type od = file_type"
  shows "resolve_placeholder r fs body ws =
           (Some (fst (loadValueByType fs path file_type ws)),
            snd (loadValueByType fs path file_type ws))"
  using assms
  by (simp add: resolve_placeholder_def Let_def Map_has_def Map_get_def split: prod.splits)

text \<open>
  Claim C5 fails on the code for the same reason: the content of the file is read
  (\<^verbatim>\<open>loadValueByType\<close> returns it), but what \<^verbatim>\<open>replace\<close> inserts into the prompt is not
  that content when it holds a replacement pattern.
\<close>

theorem prompt_file_content_not_verbatim:
  "fst (prompt (example_runner ''Plan: {{steps.s1.outputs.f}}'' ''x'')
          [''/work/plan.md'' \<mapsto> File ''costs $$5'']) = ''Plan: costs $5''
   \<and> loadValueByType [''/work/plan.md'' \<mapsto> File ''costs $$5''] ''/work/plan.md'' file_type []
       = (''costs $$5'', [])
   \<and> fst (prompt (example_runner ''Plan: {{steps.s1.outputs.f}}'' ''x'')
          [''/work/plan.md'' \<mapsto> File ''run sed s/x/[$&]/'']) = ''Plan: run sed s/x/[{{steps.s1.outputs.f}}]/''"
  by code_simp

end
